theory Spec2Isabelle
  imports Main "HOL-Library.Word" "HOL-Library.Sublist"
begin

section \<open>Values carried by protocol payloads\<close>

text \<open>
  The payloads of \<^verbatim>\<open>trinity/protocol/les/proto.py\<close> are Python dictionaries from
  string keys to dynamically typed values. The values that the module puts into a payload
  are listed here, one constructor per kind. A block header is opaque to the module and
  stays a type parameter.
\<close>

type_synonym bytes = "8 word list"

text \<open>\<^verbatim>\<open>Union[BlockNumber, Hash32]\<close>, the first argument of a header query.\<close>

datatype block_number_or_hash = BlockNumber int | Hash32 bytes

text \<open>The tuples built positionally from \<^verbatim>\<open>.commands\<close>.\<close>

datatype GetBlockHeadersQuery = GetBlockHeadersQuery block_number_or_hash int int bool

datatype ProofRequest = ProofRequest bytes bytes bytes int

datatype ContractCodeRequest = ContractCodeRequest bytes bytes

datatype 'h pvalue =
    PNone
  | PBool bool
  | PInt int
  | PBytes bytes
  | PBytesList "bytes list"
  | PCostTable "(int \<times> int \<times> int) list"
  | PHeaders "'h list"
  | PQuery GetBlockHeadersQuery
  | PProofRequests "ProofRequest list"
  | PCodeRequests "ContractCodeRequest list"

text \<open>
  A dictionary keeps its keys in insertion order, so a payload is an association list
  with distinct keys.
\<close>

type_synonym 'h Payload = "(string \<times> 'h pvalue) list"

text \<open>
  \<^verbatim>\<open>eth_utils.to_dict\<close> is \<^verbatim>\<open>dict(pairs)\<close>: a key seen again keeps its first position
  and takes the later value.
\<close>

fun dict_set :: "string \<Rightarrow> 'v \<Rightarrow> (string \<times> 'v) list \<Rightarrow> (string \<times> 'v) list" where
  "dict_set k v [] = [(k, v)]"
| "dict_set k v ((k', v') # d) = (if k' = k then (k, v) # d else (k', v') # dict_set k v d)"

definition to_dict :: "(string \<times> 'v) list \<Rightarrow> (string \<times> 'v) list" where
  "to_dict pairs = fold (\<lambda>(k, v) d. dict_set k v d) pairs []"

text \<open>\<^verbatim>\<open>d[k]\<close> raises \<^verbatim>\<open>KeyError\<close> on a missing key; \<open>dict_get\<close> is the lookup itself.\<close>

definition dict_get :: "(string \<times> 'v) list \<Rightarrow> string \<Rightarrow> 'v option" where
  "dict_get d k = map_of d k"

definition dict_keys :: "(string \<times> 'v) list \<Rightarrow> string list" where
  "dict_keys d = map fst d"

section \<open>The handshake parameters\<close>

record LESHandshakeParams =
  version :: int
  network_id :: int
  head_td :: int
  head_hash :: bytes
  head_number :: int
  genesis_hash :: bytes
  serve_headers :: bool
  serve_chain_since :: "int option"
  serve_state_since :: "int option"
  serve_recent_state :: "bool option"
  serve_recent_chain :: "bool option"
  tx_relay :: bool
  flow_control_bl :: "int option"
  flow_control_mcr :: "(int \<times> int \<times> int) list option"
  flow_control_mrr :: "int option"
  announce_type :: "int option"

text \<open>
  The generator \<^verbatim>\<open>_as_payload_dict\<close> before its decorator: the pairs it yields, in the
  order of the \<^verbatim>\<open>yield\<close> statements. Each \<^verbatim>\<open>if\<close> contributes one pair or none.
\<close>

definition as_payload_dict_items :: "LESHandshakeParams \<Rightarrow> (string \<times> 'h pvalue) list" where
  "as_payload_dict_items self =
     [(''protocolVersion'', PInt (version self)),
      (''networkId'', PInt (network_id self)),
      (''headTd'', PInt (head_td self)),
      (''headHash'', PBytes (head_hash self)),
      (''headNum'', PInt (head_number self)),
      (''genesisHash'', PBytes (genesis_hash self))]
     @ (if serve_headers self = True then [(''serveHeaders'', PNone)] else [])
     @ (case serve_chain_since self of None \<Rightarrow> [] | Some n \<Rightarrow> [(''serveChainSince'', PInt n)])
     @ (case serve_state_since self of None \<Rightarrow> [] | Some n \<Rightarrow> [(''serveStateSince'', PInt n)])
     @ (case serve_recent_chain self of None \<Rightarrow> [] | Some b \<Rightarrow> [(''serveRecentChain'', PBool b)])
     @ (case serve_recent_state self of None \<Rightarrow> [] | Some b \<Rightarrow> [(''serveRecentState'', PBool b)])
     @ (if tx_relay self = True then [(''txRelay'', PNone)] else [])
     @ (case flow_control_bl self of None \<Rightarrow> [] | Some n \<Rightarrow> [(''flowControl/BL'', PInt n)])
     @ (case flow_control_mcr self of None \<Rightarrow> [] | Some t \<Rightarrow> [(''flowControl/MRC'', PCostTable t)])
     @ (case flow_control_mrr self of None \<Rightarrow> [] | Some n \<Rightarrow> [(''flowControl/MRR'', PInt n)])
     @ (case announce_type self of None \<Rightarrow> [] | Some n \<Rightarrow> [(''announceType'', PInt n)])"

definition as_payload_dict :: "LESHandshakeParams \<Rightarrow> 'h Payload" where
  "as_payload_dict self = to_dict (as_payload_dict_items self)"

section \<open>Errors, effects and collaborators\<close>

text \<open>
  Every exception the two modules raise is a constructor with its message. \<open>OtherError\<close>
  stands for an exception raised inside a collaborator (the command encoder).
\<close>

datatype error =
    ValidationError string
  | ValueError string
  | NotImplementedError string
  | KeyError string
  | OtherError string

text \<open>Python's \<^verbatim>\<open>str\<close> on an integer, as the f-strings of the error messages use it.\<close>

fun str_nat :: "nat \<Rightarrow> string" where
  "str_nat n =
     (if n < 10 then [char_of (48 + n)] else str_nat (n div 10) @ [char_of (48 + n mod 10)])"

definition str_int :: "int \<Rightarrow> string" where
  "str_int i = (if i < 0 then CHR ''-'' # str_nat (nat (- i)) else str_nat (nat i))"

text \<open>The command classes imported from \<^verbatim>\<open>.commands\<close>.\<close>

datatype les_cmd =
    Status | StatusV2 | Announce | BlockHeaders | GetBlockHeaders | GetBlockBodies
  | GetContractCodes | GetProofs | GetProofsV2 | GetReceipts | BlockBodies | Receipts
  | Proofs | ProofsV2 | ContractCodes

text \<open>
  What the module reads from outside itself is a parameter of the model:
  \<^item> \<open>encode env cmd offset snappy data\<close> is \<^verbatim>\<open>cmd(offset, snappy).encode(data)\<close>, the
    (header, body) frame or the exception the encoder raises;
  \<^item> \<open>MAX_BODIES_FETCH\<close> is the constant of \<^verbatim>\<open>constants.py\<close>;
  \<^item> \<open>request_id_source env n\<close> is the value of the \<open>n\<close>-th call of
    \<^verbatim>\<open>gen_request_id()\<close>.
\<close>

record 'h env =
  encode :: "les_cmd \<Rightarrow> int \<Rightarrow> bool \<Rightarrow> 'h Payload \<Rightarrow> error + bytes \<times> bytes"
  MAX_BODIES_FETCH :: int
  request_id_source :: "nat \<Rightarrow> int"

text \<open>
  The effects of the driver: the frames handed to \<^verbatim>\<open>transport.send\<close>, the records
  handed to \<^verbatim>\<open>logger.debug\<close> (format string and argument), and how many request ids
  have been drawn. An exception does not undo an effect, so every method returns the
  world it leaves behind together with its value or error.
\<close>

record 'h world =
  transport :: "(bytes \<times> bytes) list"
  logger :: "(string \<times> 'h Payload) list"
  ids_drawn :: nat

definition gen_request_id :: "'h env \<Rightarrow> 'h world \<Rightarrow> int \<times> 'h world" where
  "gen_request_id env w = (request_id_source env (ids_drawn w), w\<lparr>ids_drawn := Suc (ids_drawn w)\<rparr>)"

definition transport_send :: "bytes \<times> bytes \<Rightarrow> 'h world \<Rightarrow> 'h world" where
  "transport_send frame w = w\<lparr>transport := transport w @ [frame]\<rparr>"

definition logger_debug :: "string \<Rightarrow> 'h Payload \<Rightarrow> 'h world \<Rightarrow> 'h world" where
  "logger_debug fmt arg w = w\<lparr>logger := logger w @ [(fmt, arg)]\<rparr>"

section \<open>The protocol driver\<close>

datatype les_class = LESProtocol | LESProtocolV2

text \<open>Class attributes.\<close>

fun version_of :: "les_class \<Rightarrow> int" where
  "version_of LESProtocol = 1"
| "version_of LESProtocolV2 = 2"

fun commands_of :: "les_class \<Rightarrow> les_cmd list" where
  "commands_of LESProtocol =
     [Status, Announce, BlockHeaders, GetBlockHeaders, BlockBodies, Receipts, Proofs,
      ContractCodes]"
| "commands_of LESProtocolV2 =
     [StatusV2, Announce, BlockHeaders, GetBlockHeaders, BlockBodies, Receipts, ProofsV2,
      ContractCodes]"

fun cmd_length_of :: "les_class \<Rightarrow> nat" where
  "cmd_length_of LESProtocol = 15"
| "cmd_length_of LESProtocolV2 = 21"

text \<open>Instance state read by the methods; \<open>cls\<close> is the class of the instance.\<close>

record protocol =
  cls :: les_class
  cmd_id_offset :: int
  snappy_support :: bool

definition version_mismatch_message :: "int \<Rightarrow> int \<Rightarrow> string" where
  "version_mismatch_message params_version proto_version =
     ''LES protocol version mismatch: '' @ ''params:'' @ str_int params_version
       @ '' != proto:'' @ str_int proto_version"

definition LESProtocol_send_handshake ::
  "'h env \<Rightarrow> protocol \<Rightarrow> LESHandshakeParams \<Rightarrow> 'h world \<Rightarrow> (error + unit) \<times> 'h world" where
  "LESProtocol_send_handshake env self handshake_params w =
     (if version handshake_params \<noteq> version_of (cls self) then
        (Inl (ValidationError
               (version_mismatch_message (version handshake_params) (version_of (cls self)))), w)
      else
        let resp = as_payload_dict handshake_params in
        case encode env Status (cmd_id_offset self) (snappy_support self) resp of
          Inl e \<Rightarrow> (Inl e, w)
        | Inr frame \<Rightarrow>
            (Inr (), logger_debug ''Sending LES/Status msg: %s'' resp (transport_send frame w)))"

definition LESProtocolV2_send_handshake ::
  "'h env \<Rightarrow> protocol \<Rightarrow> LESHandshakeParams \<Rightarrow> 'h world \<Rightarrow> (error + unit) \<times> 'h world" where
  "LESProtocolV2_send_handshake env self handshake_params w =
     (if version handshake_params \<noteq> version_of (cls self) then
        (Inl (ValidationError
               (version_mismatch_message (version handshake_params) (version_of (cls self)))), w)
      else
        let resp = as_payload_dict handshake_params;
            w1 = logger_debug ''Sending LES/Status msg: %s'' resp w in
        case encode env StatusV2 (cmd_id_offset self) (snappy_support self) resp of
          Inl e \<Rightarrow> (Inl e, w1)
        | Inr frame \<Rightarrow> (Inr (), transport_send frame w1))"

text \<open>
  The request methods. Each starts with
  \<^verbatim>\<open>if request_id is None: request_id = gen_request_id()\<close> and ends by encoding its
  dictionary, sending the frame and returning the request id.
\<close>

definition LESProtocol_send_get_block_bodies ::
  "'h env \<Rightarrow> protocol \<Rightarrow> bytes list \<Rightarrow> int option \<Rightarrow> 'h world \<Rightarrow> (error + int) \<times> 'h world" where
  "LESProtocol_send_get_block_bodies env self block_hashes request_id w =
     (let (request_id, w) =
            (case request_id of None \<Rightarrow> gen_request_id env w | Some i \<Rightarrow> (i, w)) in
      if int (length block_hashes) > MAX_BODIES_FETCH env then
        (Inl (ValueError (''Cannot ask for more than '' @ str_int (MAX_BODIES_FETCH env)
                            @ '' blocks in a single request'')), w)
      else
        let data = [(''request_id'', PInt request_id),
                    (''block_hashes'', PBytesList block_hashes)] in
        case encode env GetBlockBodies (cmd_id_offset self) (snappy_support self) data of
        Inl e \<Rightarrow> (Inl e, w)
      | Inr (header, body) \<Rightarrow> (Inr request_id, transport_send (header, body) w))"

definition LESProtocol_send_get_block_headers ::
  "'h env \<Rightarrow> protocol \<Rightarrow> block_number_or_hash \<Rightarrow> int \<Rightarrow> int \<Rightarrow> bool \<Rightarrow> int option \<Rightarrow> 'h world
     \<Rightarrow> (error + int) \<times> 'h world" where
  "LESProtocol_send_get_block_headers env self block_number_or_hash max_headers skip reverse
       request_id w =
     (let (request_id, w) =
            (case request_id of None \<Rightarrow> gen_request_id env w | Some i \<Rightarrow> (i, w));
          data = [(''request_id'', PInt request_id),
                  (''query'', PQuery (GetBlockHeadersQuery block_number_or_hash max_headers
                                        skip reverse))] in
      case encode env GetBlockHeaders (cmd_id_offset self) (snappy_support self) data of
        Inl e \<Rightarrow> (Inl e, w)
      | Inr (header, body) \<Rightarrow> (Inr request_id, transport_send (header, body) w))"

definition LESProtocol_send_block_headers ::
  "'h env \<Rightarrow> protocol \<Rightarrow> 'h list \<Rightarrow> int \<Rightarrow> int option \<Rightarrow> 'h world \<Rightarrow> (error + int) \<times> 'h world" where
  "LESProtocol_send_block_headers env self headers buffer_value request_id w =
     (let (request_id, w) =
            (case request_id of None \<Rightarrow> gen_request_id env w | Some i \<Rightarrow> (i, w));
          data = [(''request_id'', PInt request_id),
                  (''headers'', PHeaders headers),
                  (''buffer_value'', PInt buffer_value)] in
      case encode env BlockHeaders (cmd_id_offset self) (snappy_support self) data of
        Inl e \<Rightarrow> (Inl e, w)
      | Inr (header, body) \<Rightarrow> (Inr request_id, transport_send (header, body) w))"

definition LESProtocol_send_get_receipts ::
  "'h env \<Rightarrow> protocol \<Rightarrow> bytes \<Rightarrow> int option \<Rightarrow> 'h world \<Rightarrow> (error + int) \<times> 'h world" where
  "LESProtocol_send_get_receipts env self block_hash request_id w =
     (let (request_id, w) =
            (case request_id of None \<Rightarrow> gen_request_id env w | Some i \<Rightarrow> (i, w));
          data = [(''request_id'', PInt request_id),
                  (''block_hashes'', PBytesList [block_hash])] in
      case encode env GetReceipts (cmd_id_offset self) (snappy_support self) data of
        Inl e \<Rightarrow> (Inl e, w)
      | Inr (header, body) \<Rightarrow> (Inr request_id, transport_send (header, body) w))"

definition LESProtocol_send_get_proof ::
  "'h env \<Rightarrow> protocol \<Rightarrow> bytes \<Rightarrow> bytes \<Rightarrow> bytes \<Rightarrow> int \<Rightarrow> int option \<Rightarrow> 'h world
     \<Rightarrow> (error + int) \<times> 'h world" where
  "LESProtocol_send_get_proof env self block_hash account_key key from_level request_id w =
     (let (request_id, w) =
            (case request_id of None \<Rightarrow> gen_request_id env w | Some i \<Rightarrow> (i, w));
          data = [(''request_id'', PInt request_id),
                  (''proof_requests'',
                     PProofRequests [ProofRequest block_hash account_key key from_level])] in
      case encode env GetProofs (cmd_id_offset self) (snappy_support self) data of
        Inl e \<Rightarrow> (Inl e, w)
      | Inr (header, body) \<Rightarrow> (Inr request_id, transport_send (header, body) w))"

definition LESProtocol_send_get_contract_code ::
  "'h env \<Rightarrow> protocol \<Rightarrow> bytes \<Rightarrow> bytes \<Rightarrow> int option \<Rightarrow> 'h world \<Rightarrow> (error + int) \<times> 'h world" where
  "LESProtocol_send_get_contract_code env self block_hash key request_id w =
     (let (request_id, w) =
            (case request_id of None \<Rightarrow> gen_request_id env w | Some i \<Rightarrow> (i, w));
          data = [(''request_id'', PInt request_id),
                  (''code_requests'', PCodeRequests [ContractCodeRequest block_hash key])] in
      case encode env GetContractCodes (cmd_id_offset self) (snappy_support self) data of
        Inl e \<Rightarrow> (Inl e, w)
      | Inr (header, body) \<Rightarrow> (Inr request_id, transport_send (header, body) w))"

definition LESProtocolV2_send_get_proof ::
  "'h env \<Rightarrow> protocol \<Rightarrow> bytes \<Rightarrow> bytes \<Rightarrow> bytes \<Rightarrow> int \<Rightarrow> int option \<Rightarrow> 'h world
     \<Rightarrow> (error + int) \<times> 'h world" where
  "LESProtocolV2_send_get_proof env self block_hash account_key key from_level request_id w =
     (let (request_id, w) =
            (case request_id of None \<Rightarrow> gen_request_id env w | Some i \<Rightarrow> (i, w));
          data = [(''request_id'', PInt request_id),
                  (''proof_requests'',
                     PProofRequests [ProofRequest block_hash account_key key from_level])] in
      case encode env GetProofsV2 (cmd_id_offset self) (snappy_support self) data of
        Inl e \<Rightarrow> (Inl e, w)
      | Inr (header, body) \<Rightarrow> (Inr request_id, transport_send (header, body) w))"

text \<open>
  Method resolution: \<^verbatim>\<open>LESProtocolV2\<close> defines \<^verbatim>\<open>send_handshake\<close> and
  \<^verbatim>\<open>send_get_proof\<close> itself and inherits the other methods from \<^verbatim>\<open>LESProtocol\<close>.
\<close>

definition send_handshake ::
  "'h env \<Rightarrow> protocol \<Rightarrow> LESHandshakeParams \<Rightarrow> 'h world \<Rightarrow> (error + unit) \<times> 'h world" where
  "send_handshake env self =
     (case cls self of
        LESProtocol \<Rightarrow> LESProtocol_send_handshake env self
      | LESProtocolV2 \<Rightarrow> LESProtocolV2_send_handshake env self)"

definition send_get_block_bodies ::
  "'h env \<Rightarrow> protocol \<Rightarrow> bytes list \<Rightarrow> int option \<Rightarrow> 'h world \<Rightarrow> (error + int) \<times> 'h world" where
  "send_get_block_bodies env self =
     (case cls self of
        LESProtocol \<Rightarrow> LESProtocol_send_get_block_bodies env self
      | LESProtocolV2 \<Rightarrow> LESProtocol_send_get_block_bodies env self)"

definition send_get_block_headers ::
  "'h env \<Rightarrow> protocol \<Rightarrow> block_number_or_hash \<Rightarrow> int \<Rightarrow> int \<Rightarrow> bool \<Rightarrow> int option \<Rightarrow> 'h world
     \<Rightarrow> (error + int) \<times> 'h world" where
  "send_get_block_headers env self =
     (case cls self of
        LESProtocol \<Rightarrow> LESProtocol_send_get_block_headers env self
      | LESProtocolV2 \<Rightarrow> LESProtocol_send_get_block_headers env self)"

definition send_block_headers ::
  "'h env \<Rightarrow> protocol \<Rightarrow> 'h list \<Rightarrow> int \<Rightarrow> int option \<Rightarrow> 'h world \<Rightarrow> (error + int) \<times> 'h world" where
  "send_block_headers env self =
     (case cls self of
        LESProtocol \<Rightarrow> LESProtocol_send_block_headers env self
      | LESProtocolV2 \<Rightarrow> LESProtocol_send_block_headers env self)"

definition send_get_receipts ::
  "'h env \<Rightarrow> protocol \<Rightarrow> bytes \<Rightarrow> int option \<Rightarrow> 'h world \<Rightarrow> (error + int) \<times> 'h world" where
  "send_get_receipts env self =
     (case cls self of
        LESProtocol \<Rightarrow> LESProtocol_send_get_receipts env self
      | LESProtocolV2 \<Rightarrow> LESProtocol_send_get_receipts env self)"

definition send_get_proof ::
  "'h env \<Rightarrow> protocol \<Rightarrow> bytes \<Rightarrow> bytes \<Rightarrow> bytes \<Rightarrow> int \<Rightarrow> int option \<Rightarrow> 'h world
     \<Rightarrow> (error + int) \<times> 'h world" where
  "send_get_proof env self =
     (case cls self of
        LESProtocol \<Rightarrow> LESProtocol_send_get_proof env self
      | LESProtocolV2 \<Rightarrow> LESProtocolV2_send_get_proof env self)"

definition send_get_contract_code ::
  "'h env \<Rightarrow> protocol \<Rightarrow> bytes \<Rightarrow> bytes \<Rightarrow> int option \<Rightarrow> 'h world \<Rightarrow> (error + int) \<times> 'h world" where
  "send_get_contract_code env self =
     (case cls self of
        LESProtocol \<Rightarrow> LESProtocol_send_get_contract_code env self
      | LESProtocolV2 \<Rightarrow> LESProtocol_send_get_contract_code env self)"

section \<open>The proxy driver\<close>

text \<open>
  \<^verbatim>\<open>SendBlockHeadersEvent(session, headers, buffer_value, req_id)\<close>. The session and the
  broadcast configuration are opaque. The last field holds whatever the proxy passes,
  which can be \<^verbatim>\<open>None\<close>.
\<close>

datatype ('s, 'h) event = SendBlockHeadersEvent 's "'h list" int "int option"

record ('s, 'c) ProxyLESProtocol =
  session :: 's
  broadcast_config :: 'c

text \<open>
  The effects of the proxy: the (event, configuration) pairs handed to
  \<^verbatim>\<open>broadcast_nowait\<close> and the number of request ids drawn.
\<close>

record ('s, 'c, 'h) proxy_world =
  event_bus :: "(('s, 'h) event \<times> 'c) list"
  proxy_ids_drawn :: nat

definition proxy_gen_request_id ::
  "(nat \<Rightarrow> int) \<Rightarrow> ('s, 'c, 'h) proxy_world \<Rightarrow> int \<times> ('s, 'c, 'h) proxy_world" where
  "proxy_gen_request_id source w =
     (source (proxy_ids_drawn w), w\<lparr>proxy_ids_drawn := Suc (proxy_ids_drawn w)\<rparr>)"

definition broadcast_nowait ::
  "('s, 'h) event \<Rightarrow> 'c \<Rightarrow> ('s, 'c, 'h) proxy_world \<Rightarrow> ('s, 'c, 'h) proxy_world" where
  "broadcast_nowait ev config w = w\<lparr>event_bus := event_bus w @ [(ev, config)]\<rparr>"

text \<open>The truth value of Python's \<^verbatim>\<open>None\<close>.\<close>

definition bool_None :: bool where
  "bool_None = False"

definition ProxyLESProtocol_send_handshake ::
  "('s, 'c) ProxyLESProtocol \<Rightarrow> LESHandshakeParams \<Rightarrow> ('s, 'c, 'h) proxy_world
     \<Rightarrow> (error + unit) \<times> ('s, 'c, 'h) proxy_world" where
  "ProxyLESProtocol_send_handshake self handshake_params w =
     (Inl (NotImplementedError ''API not implemented''), w)"

definition ProxyLESProtocol_send_get_block_bodies ::
  "('s, 'c) ProxyLESProtocol \<Rightarrow> bytes list \<Rightarrow> int option \<Rightarrow> ('s, 'c, 'h) proxy_world
     \<Rightarrow> (error + int) \<times> ('s, 'c, 'h) proxy_world" where
  "ProxyLESProtocol_send_get_block_bodies self block_hashes request_id w =
     (Inl (NotImplementedError ''API not implemented''), w)"

definition ProxyLESProtocol_send_get_block_headers ::
  "('s, 'c) ProxyLESProtocol \<Rightarrow> block_number_or_hash \<Rightarrow> int \<Rightarrow> int \<Rightarrow> bool \<Rightarrow> int option
     \<Rightarrow> ('s, 'c, 'h) proxy_world \<Rightarrow> (error + int) \<times> ('s, 'c, 'h) proxy_world" where
  "ProxyLESProtocol_send_get_block_headers self block_number_or_hash max_headers skip reverse
       request_id w =
     (Inl (NotImplementedError ''API not implemented''), w)"

text \<open>
  \<^verbatim>\<open>req_id = request_id if not None else gen_request_id()\<close>: the condition is
  \<^verbatim>\<open>not None\<close>, not a test of \<^verbatim>\<open>request_id\<close>.
\<close>

definition ProxyLESProtocol_send_block_headers ::
  "(nat \<Rightarrow> int) \<Rightarrow> ('s, 'c) ProxyLESProtocol \<Rightarrow> 'h list \<Rightarrow> int \<Rightarrow> int option
     \<Rightarrow> ('s, 'c, 'h) proxy_world \<Rightarrow> (error + int option) \<times> ('s, 'c, 'h) proxy_world" where
  "ProxyLESProtocol_send_block_headers source self headers buffer_value request_id w =
     (let (req_id, w) =
            (if \<not> bool_None then (request_id, w)
             else (case proxy_gen_request_id source w of (i, w') \<Rightarrow> (Some i, w')));
          w = broadcast_nowait (SendBlockHeadersEvent (session self) headers buffer_value req_id)
                (broadcast_config self) w in
      (Inr req_id, w))"

definition ProxyLESProtocol_send_get_receipts ::
  "('s, 'c) ProxyLESProtocol \<Rightarrow> bytes \<Rightarrow> int option \<Rightarrow> ('s, 'c, 'h) proxy_world
     \<Rightarrow> (error + int) \<times> ('s, 'c, 'h) proxy_world" where
  "ProxyLESProtocol_send_get_receipts self block_hash request_id w =
     (Inl (NotImplementedError ''API not implemented''), w)"

definition ProxyLESProtocol_send_get_proof ::
  "('s, 'c) ProxyLESProtocol \<Rightarrow> bytes \<Rightarrow> bytes \<Rightarrow> bytes \<Rightarrow> int \<Rightarrow> int option
     \<Rightarrow> ('s, 'c, 'h) proxy_world \<Rightarrow> (error + int) \<times> ('s, 'c, 'h) proxy_world" where
  "ProxyLESProtocol_send_get_proof self block_hash account_key key from_level request_id w =
     (Inl (NotImplementedError ''API not implemented''), w)"

definition ProxyLESProtocol_send_get_contract_code ::
  "('s, 'c) ProxyLESProtocol \<Rightarrow> bytes \<Rightarrow> bytes \<Rightarrow> int option \<Rightarrow> ('s, 'c, 'h) proxy_world
     \<Rightarrow> (error + int) \<times> ('s, 'c, 'h) proxy_world" where
  "ProxyLESProtocol_send_get_contract_code self block_hash key request_id w =
     (Inl (NotImplementedError ''API not implemented''), w)"

section \<open>The beacon-blocks performance tracker\<close>

text \<open>
  \<^verbatim>\<open>trinity/protocol/bcc/trackers.py\<close>. A request exposes the dictionary
  \<^verbatim>\<open>command_payload\<close>; a result is a sequence of blocks, opaque to the tracker.
\<close>

record 'h GetBeaconBlocksRequest =
  command_payload :: "'h Payload"

definition get_request_size :: "'h GetBeaconBlocksRequest \<Rightarrow> error + 'h pvalue" where
  "get_request_size request =
     (case dict_get (command_payload request) ''max_blocks'' of
        None \<Rightarrow> Inl (KeyError ''max_blocks'')
      | Some v \<Rightarrow> Inr v)"

definition get_result_size :: "'b list \<Rightarrow> int" where
  "get_result_size result = int (length result)"

definition get_result_item_count :: "'b list \<Rightarrow> int" where
  "get_result_item_count result = int (length result)"

section \<open>Orders of payload keys\<close>

text \<open>
  The keys of a handshake payload in the order of the \<^verbatim>\<open>yield\<close> statements of
  \<^verbatim>\<open>_as_payload_dict\<close>.
\<close>

definition payload_key_order :: "string list" where
  "payload_key_order =
     [''protocolVersion'', ''networkId'', ''headTd'', ''headHash'', ''headNum'', ''genesisHash'',
      ''serveHeaders'', ''serveChainSince'', ''serveStateSince'', ''serveRecentChain'',
      ''serveRecentState'', ''txRelay'', ''flowControl/BL'', ''flowControl/MRC'',
      ''flowControl/MRR'', ''announceType'']"

text \<open>
  The same keys in the order in which \<^verbatim>\<open>LESHandshakeParams\<close> declares its fields, which
  is the order the specification states.
\<close>

definition declaration_key_order :: "string list" where
  "declaration_key_order =
     [''protocolVersion'', ''networkId'', ''headTd'', ''headHash'', ''headNum'', ''genesisHash'',
      ''serveHeaders'', ''serveChainSince'', ''serveStateSince'', ''serveRecentState'',
      ''serveRecentChain'', ''txRelay'', ''flowControl/BL'', ''flowControl/MRC'',
      ''flowControl/MRR'', ''announceType'']"

text \<open>The keys of \<open>order\<close> that occur in the dictionary \<open>d\<close>, in the order of \<open>order\<close>.\<close>

definition keys_in_order :: "(string \<times> 'v) list \<Rightarrow> string list \<Rightarrow> string list" where
  "keys_in_order d order = filter (\<lambda>k. k \<in> set (dict_keys d)) order"

section \<open>Example inputs\<close>

text \<open>A version-1 handshake with every optional field absent and both flags false.\<close>

definition params_bare :: LESHandshakeParams where
  "params_bare =
     \<lparr>version = 1, network_id = 1, head_td = 17179869184, head_hash = replicate 32 0,
      head_number = 0, genesis_hash = replicate 32 0, serve_headers = False,
      serve_chain_since = None, serve_state_since = None, serve_recent_state = None,
      serve_recent_chain = None, tx_relay = False, flow_control_bl = None,
      flow_control_mcr = None, flow_control_mrr = None, announce_type = None\<rparr>"

text \<open>A version-2 handshake of a serving node, with both recent-depth fields set.\<close>

definition params_serving :: LESHandshakeParams where
  "params_serving =
     \<lparr>version = 2, network_id = 1, head_td = 17179869184, head_hash = replicate 32 0,
      head_number = 0, genesis_hash = replicate 32 0, serve_headers = True,
      serve_chain_since = Some 0, serve_state_since = Some 0, serve_recent_state = Some False,
      serve_recent_chain = Some True, tx_relay = True, flow_control_bl = Some 1000,
      flow_control_mcr = Some [(2, 10, 3)], flow_control_mrr = Some 50,
      announce_type = Some 1\<rparr>"

text \<open>A version-1 and a version-2 driver on the same session settings.\<close>

definition proto_v1 :: protocol where
  "proto_v1 = \<lparr>cls = LESProtocol, cmd_id_offset = 16, snappy_support = False\<rparr>"

definition proto_v2 :: protocol where
  "proto_v2 = \<lparr>cls = LESProtocolV2, cmd_id_offset = 16, snappy_support = False\<rparr>"

text \<open>
  A stand-in encoder for the examples: the header holds the command id offset and the
  number of entries of the dictionary, the body is empty. It refuses a negative request
  id, as an encoder of unsigned integers does.
\<close>

definition example_encode ::
  "les_cmd \<Rightarrow> int \<Rightarrow> bool \<Rightarrow> unit Payload \<Rightarrow> error + bytes \<times> bytes" where
  "example_encode cmd offset snappy data =
     (case dict_get data ''request_id'' of
        Some (PInt i) \<Rightarrow>
          if i < 0 then Inl (OtherError ''cannot serialize a negative integer'')
          else Inr ([word_of_int offset, word_of_nat (length data)], [])
      | _ \<Rightarrow> Inr ([word_of_int offset, word_of_nat (length data)], []))"

definition example_env :: "unit env" where
  "example_env =
     \<lparr>encode = example_encode, MAX_BODIES_FETCH = 2, request_id_source = (\<lambda>n. 1000 + int n)\<rparr>"

definition world_empty :: "unit world" where
  "world_empty = \<lparr>transport = [], logger = [], ids_drawn = 0\<rparr>"

text \<open>A beacon-blocks request that asks for at most ten blocks.\<close>

definition example_request :: "unit GetBeaconBlocksRequest" where
  "example_request =
     \<lparr>command_payload =
        [(''request_id'', PInt 5), (''block_slot_or_root'', PInt 0), (''max_blocks'', PInt 10)]\<rparr>"

section \<open>Auxiliary notions for the statements\<close>

text \<open>
  The request id a request method works with after its first statement: the caller's
  id when there is one, the next value of the id source otherwise.
\<close>

definition request_id_used :: "'h env \<Rightarrow> int option \<Rightarrow> 'h world \<Rightarrow> int" where
  "request_id_used env request_id w =
     (case request_id of None \<Rightarrow> request_id_source env (ids_drawn w) | Some i \<Rightarrow> i)"

text \<open>The number of ids drawn after that statement.\<close>

definition ids_drawn_after :: "int option \<Rightarrow> 'h world \<Rightarrow> nat" where
  "ids_drawn_after request_id w =
     (case request_id of None \<Rightarrow> Suc (ids_drawn w) | Some i \<Rightarrow> ids_drawn w)"

text \<open>The command an encoder sees once version 2 has replaced the two overridden ones.\<close>

definition v2_cmd :: "les_cmd \<Rightarrow> les_cmd" where
  "v2_cmd cmd = (if cmd = Status then StatusV2 else if cmd = GetProofs then GetProofsV2 else cmd)"

text \<open>
  What it means that a request method, called with \<open>request_id\<close> in the world \<open>w\<close>, has
  returned \<open>r\<close> and left the world \<open>w'\<close> after sending \<open>data\<close> under the command \<open>cmd\<close>:
  the dictionary's \<^verbatim>\<open>request_id\<close> entry is \<open>r\<close>; \<open>r\<close> is the caller's id when there is
  one and a fresh one otherwise, and an id has been drawn only in the second case; and
  the transport has received the frame of \<open>data\<close>, and only that.
\<close>

definition sent_with_id ::
  "'h env \<Rightarrow> protocol \<Rightarrow> les_cmd \<Rightarrow> 'h Payload \<Rightarrow> int option \<Rightarrow> 'h world \<Rightarrow> int \<Rightarrow> 'h world
     \<Rightarrow> bool" where
  "sent_with_id env self cmd data request_id w r w' \<longleftrightarrow>
     dict_get data ''request_id'' = Some (PInt r)
     \<and> r = request_id_used env request_id w
     \<and> ids_drawn w' = ids_drawn_after request_id w
     \<and> (case encode env cmd (cmd_id_offset self) (snappy_support self) data of
          Inl e \<Rightarrow> False
        | Inr frame \<Rightarrow> transport w' = transport w @ [frame])"

text \<open>The command class that \<^verbatim>\<open>send_handshake\<close> and \<^verbatim>\<open>send_get_proof\<close> of a class use.\<close>

fun handshake_cmd_of :: "les_class \<Rightarrow> les_cmd" where
  "handshake_cmd_of LESProtocol = Status"
| "handshake_cmd_of LESProtocolV2 = StatusV2"

fun proof_cmd_of :: "les_class \<Rightarrow> les_cmd" where
  "proof_cmd_of LESProtocol = GetProofs"
| "proof_cmd_of LESProtocolV2 = GetProofsV2"

text \<open>An environment whose encoder sees \<open>v2_cmd cmd\<close> where the given one sees \<open>cmd\<close>.\<close>

definition with_v2_cmds :: "'h env \<Rightarrow> 'h env" where
  "with_v2_cmds env = env\<lparr>encode := (\<lambda>cmd. encode env (v2_cmd cmd))\<rparr>"

text \<open>
  The world after one request in \<open>world_empty\<close> that drew a request id and sent one
  frame of \<open>example_encode\<close> for a dictionary of \<open>n\<close> entries.
\<close>

definition world_one_frame :: "8 word \<Rightarrow> unit world" where
  "world_one_frame n = \<lparr>transport = [([16, n], [])], logger = [], ids_drawn = 1\<rparr>"

text \<open>
  A second stand-in encoder, with a fixed table of handshake keys as an encoder that
  serializes each key by its own rule has: under the two handshake commands it raises
  \<^verbatim>\<open>KeyError\<close> for the first key of the dictionary that is not in the table. The table
  has no entry for the two recent-depth keys.
\<close>

definition known_status_keys :: "string list" where
  "known_status_keys =
     [''protocolVersion'', ''networkId'', ''headTd'', ''headHash'', ''headNum'', ''genesisHash'',
      ''serveHeaders'', ''serveChainSince'', ''serveStateSince'', ''txRelay'',
      ''flowControl/BL'', ''flowControl/MRC'', ''flowControl/MRR'', ''announceType'']"

definition strict_encode ::
  "les_cmd \<Rightarrow> int \<Rightarrow> bool \<Rightarrow> unit Payload \<Rightarrow> error + bytes \<times> bytes" where
  "strict_encode cmd offset snappy data =
     (if cmd \<in> {Status, StatusV2} then
        (case filter (\<lambda>k. k \<notin> set known_status_keys) (dict_keys data) of
           [] \<Rightarrow> example_encode cmd offset snappy data
         | k # ks \<Rightarrow> Inl (KeyError k))
      else example_encode cmd offset snappy data)"

definition strict_env :: "unit env" where
  "strict_env =
     \<lparr>encode = strict_encode, MAX_BODIES_FETCH = 2, request_id_source = (\<lambda>n. 1000 + int n)\<rparr>"

text \<open>The bare handshake of \<open>params_bare\<close> at version 2.\<close>

definition params_bare_v2 :: LESHandshakeParams where
  "params_bare_v2 = params_bare\<lparr>version := 2\<rparr>"

text \<open>The record that both handshake bodies hand to \<^verbatim>\<open>logger.debug\<close>.\<close>

definition handshake_log_record :: "LESHandshakeParams \<Rightarrow> string \<times> 'h Payload" where
  "handshake_log_record handshake_params =
     (''Sending LES/Status msg: %s'', as_payload_dict handshake_params)"

section \<open>Properties of the handshake payload\<close>

subsection \<open>The decorator changes nothing: the yielded keys are distinct\<close>

lemma dict_set_fresh: "k \<notin> set (map fst d) \<Longrightarrow> dict_set k v d = d @ [(k, v)]"
  by (induction d) auto

lemma fold_dict_set_distinct:
  "distinct (map fst (acc @ pairs)) \<Longrightarrow> fold (\<lambda>(k, v) d. dict_set k v d) pairs acc = acc @ pairs"
proof (induction pairs arbitrary: acc)
  case Nil
  then show ?case by simp
next
  case (Cons p pairs)
  obtain k v where p: "p = (k, v)" by (cases p)
  from Cons.prems have fresh: "k \<notin> set (map fst acc)" by (auto simp: p)
  from Cons.prems have "distinct (map fst ((acc @ [(k, v)]) @ pairs))" by (simp add: p)
  from Cons.IH [OF this] show ?case by (simp add: p dict_set_fresh [OF fresh])
qed

lemma to_dict_distinct: "distinct (map fst pairs) \<Longrightarrow> to_dict pairs = pairs"
  using fold_dict_set_distinct [of "[]" pairs] by (simp add: to_dict_def)

lemma distinct_payload_key_order: "distinct payload_key_order"
  by (simp add: payload_key_order_def)

lemma subseq_opt: "subseq (case x of None \<Rightarrow> [] | Some v \<Rightarrow> [k]) [k]"
  by (cases x) simp_all

lemma subseq_flag: "subseq (if b then [k] else []) [k]"
  by simp


lemma subseq_distinct: "subseq xs ys \<Longrightarrow> distinct ys \<Longrightarrow> distinct xs"
  by (induction rule: list_emb.induct) (auto dest: list_emb_set)

lemma filter_mem_subseq:
  "subseq xs ys \<Longrightarrow> distinct ys \<Longrightarrow> filter (\<lambda>k. k \<in> set xs) ys = xs"
proof (induction rule: list_emb.induct)
  case (list_emb_Nil ys)
  then show ?case by simp
next
  case (list_emb_Cons xs ys y)
  then have "y \<notin> set xs" by (auto dest: list_emb_set)
  with list_emb_Cons show ?case by simp
next
  case (list_emb_Cons2 x y xs ys)
  then have "filter (\<lambda>k. k = x \<or> k \<in> set xs) ys = filter (\<lambda>k. k \<in> set xs) ys"
    by (intro filter_cong) auto
  with list_emb_Cons2 show ?case by simp
qed

lemma items_keys:
  "map fst (as_payload_dict_items p :: (string \<times> 'h pvalue) list) =
     [''protocolVersion'', ''networkId'', ''headTd'', ''headHash'', ''headNum'', ''genesisHash'']
     @ (if serve_headers p then [''serveHeaders''] else [])
     @ (case serve_chain_since p of None \<Rightarrow> [] | Some n \<Rightarrow> [''serveChainSince''])
     @ (case serve_state_since p of None \<Rightarrow> [] | Some n \<Rightarrow> [''serveStateSince''])
     @ (case serve_recent_chain p of None \<Rightarrow> [] | Some b \<Rightarrow> [''serveRecentChain''])
     @ (case serve_recent_state p of None \<Rightarrow> [] | Some b \<Rightarrow> [''serveRecentState''])
     @ (if tx_relay p then [''txRelay''] else [])
     @ (case flow_control_bl p of None \<Rightarrow> [] | Some n \<Rightarrow> [''flowControl/BL''])
     @ (case flow_control_mcr p of None \<Rightarrow> [] | Some t \<Rightarrow> [''flowControl/MRC''])
     @ (case flow_control_mrr p of None \<Rightarrow> [] | Some n \<Rightarrow> [''flowControl/MRR''])
     @ (case announce_type p of None \<Rightarrow> [] | Some n \<Rightarrow> [''announceType''])"
  unfolding as_payload_dict_items_def map_append
  by (simp only: option.case_distrib [of "map fst"] if_distrib [of "map fst"] list.map fst_conv eq_True)

lemma items_keys_subseq:
  "subseq (map fst (as_payload_dict_items p :: (string \<times> 'h pvalue) list)) payload_key_order"
proof -
  have split_order: "payload_key_order =
     [''protocolVersion'', ''networkId'', ''headTd'', ''headHash'', ''headNum'', ''genesisHash'']
     @ [''serveHeaders''] @ [''serveChainSince''] @ [''serveStateSince''] @ [''serveRecentChain'']
     @ [''serveRecentState''] @ [''txRelay''] @ [''flowControl/BL''] @ [''flowControl/MRC'']
     @ [''flowControl/MRR''] @ [''announceType'']"
    by (simp add: payload_key_order_def)
  show ?thesis
    unfolding items_keys split_order
    by (intro list_emb_append_mono subseq_opt subseq_flag subseq_order.order_refl)
qed

lemma items_distinct: "distinct (map fst (as_payload_dict_items p :: (string \<times> 'h pvalue) list))"
  using subseq_distinct [OF items_keys_subseq distinct_payload_key_order] .

lemma as_payload_dict_items_eq: "as_payload_dict p = as_payload_dict_items p"
  by (simp add: as_payload_dict_def to_dict_distinct [OF items_distinct])



subsection \<open>Looking keys up in the payload\<close>

lemma in_set_opt [simp]: "k \<in> set (case x of None \<Rightarrow> [] | Some v \<Rightarrow> [k']) \<longleftrightarrow> x \<noteq> None \<and> k = k'"
  by (cases x) auto

lemma map_of_append_opt:
  "map_of ((case x of None \<Rightarrow> [] | Some v \<Rightarrow> [(k', f v)]) @ rest) k =
     (if k = k' \<and> x \<noteq> None then map_option f x else map_of rest k)"
  by (cases x) auto

lemma map_of_append_flag:
  "map_of ((if b then [(k', v)] else []) @ rest) k = (if k = k' \<and> b then Some v else map_of rest k)"
  by auto

lemma map_of_opt:
  "map_of (case x of None \<Rightarrow> [] | Some v \<Rightarrow> [(k', f v)]) k =
     (if k = k' then map_option f x else None)"
  by (cases x) auto

lemma payload_lookup:
  fixes p :: LESHandshakeParams
  defines "d \<equiv> (as_payload_dict p :: 'h Payload)"
  shows "dict_get d ''protocolVersion'' = Some (PInt (version p))"
    and "dict_get d ''networkId'' = Some (PInt (network_id p))"
    and "dict_get d ''headTd'' = Some (PInt (head_td p))"
    and "dict_get d ''headHash'' = Some (PBytes (head_hash p))"
    and "dict_get d ''headNum'' = Some (PInt (head_number p))"
    and "dict_get d ''genesisHash'' = Some (PBytes (genesis_hash p))"
    and "dict_get d ''serveHeaders'' = (if serve_headers p then Some PNone else None)"
    and "dict_get d ''serveChainSince'' = map_option PInt (serve_chain_since p)"
    and "dict_get d ''serveStateSince'' = map_option PInt (serve_state_since p)"
    and "dict_get d ''serveRecentChain'' = map_option PBool (serve_recent_chain p)"
    and "dict_get d ''serveRecentState'' = map_option PBool (serve_recent_state p)"
    and "dict_get d ''txRelay'' = (if tx_relay p then Some PNone else None)"
    and "dict_get d ''flowControl/BL'' = map_option PInt (flow_control_bl p)"
    and "dict_get d ''flowControl/MRC'' = map_option PCostTable (flow_control_mcr p)"
    and "dict_get d ''flowControl/MRR'' = map_option PInt (flow_control_mrr p)"
    and "dict_get d ''announceType'' = map_option PInt (announce_type p)"
  unfolding d_def dict_get_def as_payload_dict_items_eq as_payload_dict_items_def
  by (simp_all only: map_of_append_opt map_of_append_flag map_of_opt append.simps map_of.simps fst_conv snd_conv fun_upd_apply eq_True) simp_all

lemma absent_iff: "k \<notin> set (dict_keys d) \<longleftrightarrow> dict_get d k = None"
  by (simp add: dict_keys_def dict_get_def map_of_eq_None_iff)



lemma present_iff: "k \<in> set (dict_keys d) \<longleftrightarrow> dict_get d k \<noteq> None"
  by (simp add: absent_iff [symmetric])

subsection \<open>Required and absent fields\<close>

text \<open>
  Claim C3. For every handshake parameter record, the payload holds the version, the
  network id, the head total difficulty, the head hash, the head number and the genesis
  hash, whatever the other fields are; and for each of the eight fields of an optional
  type, a value of \<^verbatim>\<open>None\<close> means that the field's key is not among the keys of the
  payload.
\<close>

theorem payload_required_present_absent_omitted:
  "dict_get (as_payload_dict p :: 'h Payload) ''protocolVersion'' = Some (PInt (version p))
   \<and> dict_get (as_payload_dict p :: 'h Payload) ''networkId'' = Some (PInt (network_id p))
   \<and> dict_get (as_payload_dict p :: 'h Payload) ''headTd'' = Some (PInt (head_td p))
   \<and> dict_get (as_payload_dict p :: 'h Payload) ''headHash'' = Some (PBytes (head_hash p))
   \<and> dict_get (as_payload_dict p :: 'h Payload) ''headNum'' = Some (PInt (head_number p))
   \<and> dict_get (as_payload_dict p :: 'h Payload) ''genesisHash'' = Some (PBytes (genesis_hash p))
   \<and> (serve_chain_since p = None \<longrightarrow>
        ''serveChainSince'' \<notin> set (dict_keys (as_payload_dict p :: 'h Payload)))
   \<and> (serve_state_since p = None \<longrightarrow>
        ''serveStateSince'' \<notin> set (dict_keys (as_payload_dict p :: 'h Payload)))
   \<and> (serve_recent_state p = None \<longrightarrow>
        ''serveRecentState'' \<notin> set (dict_keys (as_payload_dict p :: 'h Payload)))
   \<and> (serve_recent_chain p = None \<longrightarrow>
        ''serveRecentChain'' \<notin> set (dict_keys (as_payload_dict p :: 'h Payload)))
   \<and> (flow_control_bl p = None \<longrightarrow>
        ''flowControl/BL'' \<notin> set (dict_keys (as_payload_dict p :: 'h Payload)))
   \<and> (flow_control_mcr p = None \<longrightarrow>
        ''flowControl/MRC'' \<notin> set (dict_keys (as_payload_dict p :: 'h Payload)))
   \<and> (flow_control_mrr p = None \<longrightarrow>
        ''flowControl/MRR'' \<notin> set (dict_keys (as_payload_dict p :: 'h Payload)))
   \<and> (announce_type p = None \<longrightarrow>
        ''announceType'' \<notin> set (dict_keys (as_payload_dict p :: 'h Payload)))"
  by (simp add: payload_lookup absent_iff)

text \<open>
  The record \<open>params_bare\<close> has all eight optional fields absent: none of their keys is in
  its payload, and the required fields are there.
\<close>

theorem payload_required_present_absent_omitted_witness:
  "serve_chain_since params_bare = None \<and> serve_state_since params_bare = None
   \<and> serve_recent_state params_bare = None \<and> serve_recent_chain params_bare = None
   \<and> flow_control_bl params_bare = None \<and> flow_control_mcr params_bare = None
   \<and> flow_control_mrr params_bare = None \<and> announce_type params_bare = None
   \<and> set (dict_keys (as_payload_dict params_bare :: unit Payload)) \<inter>
       {''serveChainSince'', ''serveStateSince'', ''serveRecentState'', ''serveRecentChain'',
        ''flowControl/BL'', ''flowControl/MRC'', ''flowControl/MRR'', ''announceType''} = {}
   \<and> dict_get (as_payload_dict params_bare :: unit Payload) ''protocolVersion'' = Some (PInt 1)
   \<and> dict_get (as_payload_dict params_bare :: unit Payload) ''genesisHash''
       = Some (PBytes (replicate 32 0))"
  using payload_required_present_absent_omitted [of params_bare, where 'h = unit]
  by (simp add: params_bare_def)

subsection \<open>Boolean capability fields\<close>

text \<open>
  Claim C2, as the code has it. The two flags \<^verbatim>\<open>serve_headers\<close> and \<^verbatim>\<open>tx_relay\<close> are
  in the payload exactly when they are true, and then as a key whose value is \<^verbatim>\<open>None\<close>.
  The two fields \<^verbatim>\<open>serve_recent_state\<close> and \<^verbatim>\<open>serve_recent_chain\<close> are optional values:
  they are in the payload exactly when they are not \<^verbatim>\<open>None\<close>, and then with their own
  boolean value, true or false.
\<close>

theorem payload_bool_fields:
  "dict_get (as_payload_dict p :: 'h Payload) ''serveHeaders''
     = (if serve_headers p then Some PNone else None)
   \<and> dict_get (as_payload_dict p :: 'h Payload) ''txRelay''
     = (if tx_relay p then Some PNone else None)
   \<and> dict_get (as_payload_dict p :: 'h Payload) ''serveRecentState''
     = map_option PBool (serve_recent_state p)
   \<and> dict_get (as_payload_dict p :: 'h Payload) ''serveRecentChain''
     = map_option PBool (serve_recent_chain p)
   \<and> (''serveHeaders'' \<in> set (dict_keys (as_payload_dict p :: 'h Payload))) = serve_headers p
   \<and> (''txRelay'' \<in> set (dict_keys (as_payload_dict p :: 'h Payload))) = tx_relay p
   \<and> (''serveRecentState'' \<in> set (dict_keys (as_payload_dict p :: 'h Payload)))
     = (serve_recent_state p \<noteq> None)
   \<and> (''serveRecentChain'' \<in> set (dict_keys (as_payload_dict p :: 'h Payload)))
     = (serve_recent_chain p \<noteq> None)"
  by (simp add: payload_lookup present_iff)

text \<open>
  The claim as stated fails on \<open>params_serving\<close>: \<^verbatim>\<open>serve_recent_state\<close> is false and
  its key is in the payload all the same, and \<^verbatim>\<open>serve_recent_chain\<close> is true and its key
  carries the value \<^verbatim>\<open>True\<close>, not the valueless marker.
\<close>

theorem payload_bool_fields_counterexample:
  "serve_recent_state params_serving = Some False
   \<and> ''serveRecentState'' \<in> set (dict_keys (as_payload_dict params_serving :: unit Payload))
   \<and> serve_recent_chain params_serving = Some True
   \<and> dict_get (as_payload_dict params_serving :: unit Payload) ''serveRecentChain''
       = Some (PBool True)
   \<and> dict_get (as_payload_dict params_serving :: unit Payload) ''serveRecentChain''
       \<noteq> Some PNone"
  by (simp add: as_payload_dict_def as_payload_dict_items_def to_dict_def dict_keys_def
        dict_get_def params_serving_def)

subsection \<open>The order of the keys\<close>

text \<open>
  Claim C9, as the code has it. The keys of the payload are the keys of
  \<open>payload_key_order\<close> that are present, in that order: the six required keys first, then
  serve-headers, serve-chain-since, serve-state-since, serve-recent-chain,
  serve-recent-state, transaction-relay, the flow-control buffer limit, the
  maximum-recharge-rate table, the maximum-recharge-rate scalar and the announce type.
  Serve-recent-chain comes before serve-recent-state.
\<close>

theorem payload_key_order_of_yields:
  "dict_keys (as_payload_dict p :: 'h Payload)
     = keys_in_order (as_payload_dict p :: 'h Payload) payload_key_order
   \<and> take 6 (dict_keys (as_payload_dict p :: 'h Payload))
     = [''protocolVersion'', ''networkId'', ''headTd'', ''headHash'', ''headNum'',
        ''genesisHash'']"
proof -
  have keys: "dict_keys (as_payload_dict p :: 'h Payload)
                = map fst (as_payload_dict_items p :: 'h Payload)"
    by (simp add: dict_keys_def as_payload_dict_items_eq)
  have "keys_in_order (as_payload_dict p :: 'h Payload) payload_key_order
          = map fst (as_payload_dict_items p :: 'h Payload)"
    unfolding keys_in_order_def keys
    by (rule filter_mem_subseq [OF items_keys_subseq distinct_payload_key_order])
  moreover have "take 6 (map fst (as_payload_dict_items p :: 'h Payload))
      = [''protocolVersion'', ''networkId'', ''headTd'', ''headHash'', ''headNum'',
         ''genesisHash'']"
    unfolding items_keys by simp
  ultimately show ?thesis by (simp add: keys)
qed

text \<open>
  The declaration order of the data model puts serve-recent-state before
  serve-recent-chain. On \<open>params_serving\<close>, where both are present, the payload has them
  the other way round.
\<close>

theorem payload_key_order_counterexample:
  "dict_keys (as_payload_dict params_serving :: unit Payload)
     \<noteq> keys_in_order (as_payload_dict params_serving :: unit Payload) declaration_key_order
   \<and> dict_keys (as_payload_dict params_serving :: unit Payload)
     = [''protocolVersion'', ''networkId'', ''headTd'', ''headHash'', ''headNum'',
        ''genesisHash'', ''serveHeaders'', ''serveChainSince'', ''serveStateSince'',
        ''serveRecentChain'', ''serveRecentState'', ''txRelay'', ''flowControl/BL'',
        ''flowControl/MRC'', ''flowControl/MRR'', ''announceType'']"
  by (simp add: as_payload_dict_def as_payload_dict_items_def to_dict_def dict_keys_def
        keys_in_order_def declaration_key_order_def params_serving_def)

section \<open>Properties of the proxy driver\<close>

text \<open>
  Claim C7. Each of the six proxy methods without a forwarding event (handshake,
  get-block-bodies, get-block-headers, get-receipts, get-proof, get-contract-code) raises
  \<^verbatim>\<open>NotImplementedError\<close> on every call, whatever the arguments, and leaves the world as
  it was: no event is published and no request id is drawn.
\<close>

theorem proxy_unsupported_calls_raise:
  "ProxyLESProtocol_send_handshake self handshake_params w
     = (Inl (NotImplementedError ''API not implemented''), w)
   \<and> ProxyLESProtocol_send_get_block_bodies self block_hashes request_id w
     = (Inl (NotImplementedError ''API not implemented''), w)
   \<and> ProxyLESProtocol_send_get_block_headers self block_number_or_hash max_headers skip reverse
       request_id w
     = (Inl (NotImplementedError ''API not implemented''), w)
   \<and> ProxyLESProtocol_send_get_receipts self block_hash request_id w
     = (Inl (NotImplementedError ''API not implemented''), w)
   \<and> ProxyLESProtocol_send_get_proof self block_hash account_key key from_level request_id w
     = (Inl (NotImplementedError ''API not implemented''), w)
   \<and> ProxyLESProtocol_send_get_contract_code self block_hash key request_id w
     = (Inl (NotImplementedError ''API not implemented''), w)"
  by (simp add: ProxyLESProtocol_send_handshake_def ProxyLESProtocol_send_get_block_bodies_def
        ProxyLESProtocol_send_get_block_headers_def ProxyLESProtocol_send_get_receipts_def
        ProxyLESProtocol_send_get_proof_def ProxyLESProtocol_send_get_contract_code_def)

text \<open>
  The proxy's \<^verbatim>\<open>send_block_headers\<close> publishes one event and returns the caller's
  \<^verbatim>\<open>request_id\<close> argument as it came, whether or not it is \<^verbatim>\<open>None\<close>.
\<close>

lemma proxy_send_block_headers_passes_id_through:
  "ProxyLESProtocol_send_block_headers source self headers buffer_value request_id w
     = (Inr request_id,
        w\<lparr>event_bus := event_bus w @
             [(SendBlockHeadersEvent (session self) headers buffer_value request_id,
               broadcast_config self)]\<rparr>)"
  by (simp add: ProxyLESProtocol_send_block_headers_def bool_None_def broadcast_nowait_def)

text \<open>
  Claim C1, at the input where the code departs from it. Called without a request id, the
  proxy's \<^verbatim>\<open>send_block_headers\<close> publishes exactly one event with the session, the
  headers and the buffer value, but the event's request id is \<^verbatim>\<open>None\<close>, the call
  returns \<^verbatim>\<open>None\<close>, and no request id is generated.
\<close>

theorem proxy_send_block_headers_without_id:
  "ProxyLESProtocol_send_block_headers source self headers buffer_value None w
     = (Inr None,
        w\<lparr>event_bus := event_bus w @
             [(SendBlockHeadersEvent (session self) headers buffer_value None,
               broadcast_config self)]\<rparr>)
   \<and> proxy_ids_drawn
        (snd (ProxyLESProtocol_send_block_headers source self headers buffer_value None w))
     = proxy_ids_drawn w"
  by (simp add: proxy_send_block_headers_passes_id_through)

section \<open>Properties of the beacon-blocks tracker\<close>

text \<open>
  Claim C8. For a request whose payload declares \<^verbatim>\<open>max_blocks\<close> to be \<open>N\<close> and a result
  of \<open>M\<close> blocks, the tracker reports the request size \<open>N\<close>, the result size \<open>M\<close> and
  the result item count \<open>M\<close>.
\<close>

theorem tracker_sizes:
  "dict_get (command_payload request) ''max_blocks'' = Some (PInt N) \<Longrightarrow> length result = M \<Longrightarrow>
     get_request_size request = Inr (PInt N)
     \<and> get_result_size result = int M
     \<and> get_result_item_count result = int M"
  by (simp add: get_request_size_def get_result_size_def get_result_item_count_def)

text \<open>A request for at most ten blocks answered with two: the request size is ten.\<close>

theorem tracker_sizes_witness:
  "dict_get (command_payload example_request) ''max_blocks'' = Some (PInt 10)
   \<and> length [(), ()] = 2
   \<and> get_request_size example_request = Inr (PInt 10)
   \<and> get_result_size [(), ()] = 2
   \<and> get_result_item_count [(), ()] = 2"
proof -
  have h1: "dict_get (command_payload example_request) ''max_blocks'' = Some (PInt 10)"
    by (simp add: example_request_def dict_get_def)
  have h2: "length [(), ()] = 2" by simp
  from tracker_sizes [OF h1 h2] h1 h2 show ?thesis by simp
qed

section \<open>Properties of the protocol driver\<close>

subsection \<open>The limit on a bodies request\<close>

lemma send_get_block_bodies_inherited:
  "send_get_block_bodies env self = LESProtocol_send_get_block_bodies env self"
  by (simp add: send_get_block_bodies_def split: les_class.split)

lemma send_get_block_bodies_too_many:
  assumes "int (length block_hashes) > MAX_BODIES_FETCH env"
  shows "send_get_block_bodies env self block_hashes request_id w
           = (Inl (ValueError (''Cannot ask for more than '' @ str_int (MAX_BODIES_FETCH env)
                                 @ '' blocks in a single request'')),
              w\<lparr>ids_drawn := ids_drawn_after request_id w\<rparr>)"
  using assms
  by (cases request_id)
     (simp_all add: send_get_block_bodies_inherited LESProtocol_send_get_block_bodies_def
        gen_request_id_def ids_drawn_after_def)

lemma send_get_block_bodies_within_limit:
  assumes "int (length block_hashes) \<le> MAX_BODIES_FETCH env"
  shows "send_get_block_bodies env self block_hashes request_id w
           = (case encode env GetBlockBodies (cmd_id_offset self) (snappy_support self)
                     [(''request_id'', PInt (request_id_used env request_id w)),
                      (''block_hashes'', PBytesList block_hashes)] of
                Inl e \<Rightarrow> (Inl e, w\<lparr>ids_drawn := ids_drawn_after request_id w\<rparr>)
              | Inr frame \<Rightarrow>
                  (Inr (request_id_used env request_id w),
                   w\<lparr>ids_drawn := ids_drawn_after request_id w,
                     transport := transport w @ [frame]\<rparr>))"
  using assms
  by (cases request_id)
     (simp_all add: send_get_block_bodies_inherited LESProtocol_send_get_block_bodies_def
        gen_request_id_def ids_drawn_after_def request_id_used_def transport_send_def
        split: sum.split)

text \<open>
  Claim C4, as the code has it. When the list of block hashes is longer than
  \<^verbatim>\<open>MAX_BODIES_FETCH\<close>, \<^verbatim>\<open>send_get_block_bodies\<close> raises the \<^verbatim>\<open>ValueError\<close> and the
  transport has received nothing. When the list is not longer than the maximum, the
  request is handed to the encoder: if the encoder returns a frame, the method returns
  the request id and the transport has received that frame, and nothing else; if the
  encoder raises, the method raises the same exception and the transport has received
  nothing.
\<close>

theorem send_get_block_bodies_limit:
  "(int (length block_hashes) > MAX_BODIES_FETCH env \<longrightarrow>
      fst (send_get_block_bodies env self block_hashes request_id w)
        = Inl (ValueError (''Cannot ask for more than '' @ str_int (MAX_BODIES_FETCH env)
                             @ '' blocks in a single request''))
      \<and> transport (snd (send_get_block_bodies env self block_hashes request_id w)) = transport w)
   \<and> (int (length block_hashes) \<le> MAX_BODIES_FETCH env \<longrightarrow>
        encode env GetBlockBodies (cmd_id_offset self) (snappy_support self)
          [(''request_id'', PInt (request_id_used env request_id w)),
           (''block_hashes'', PBytesList block_hashes)] = Inr frame \<longrightarrow>
        fst (send_get_block_bodies env self block_hashes request_id w)
          = Inr (request_id_used env request_id w)
        \<and> transport (snd (send_get_block_bodies env self block_hashes request_id w))
          = transport w @ [frame])
   \<and> (int (length block_hashes) \<le> MAX_BODIES_FETCH env \<longrightarrow>
        encode env GetBlockBodies (cmd_id_offset self) (snappy_support self)
          [(''request_id'', PInt (request_id_used env request_id w)),
           (''block_hashes'', PBytesList block_hashes)] = Inl e \<longrightarrow>
        fst (send_get_block_bodies env self block_hashes request_id w) = Inl e
        \<and> transport (snd (send_get_block_bodies env self block_hashes request_id w))
          = transport w)"
  by (simp add: send_get_block_bodies_too_many send_get_block_bodies_within_limit)

text \<open>
  With a maximum of two: three hashes are refused, two hashes are sent, and two hashes
  with a request id that the encoder refuses are not sent.
\<close>

theorem send_get_block_bodies_limit_witness:
  "int (length [[1], [2], [3 :: 8 word]]) > MAX_BODIES_FETCH example_env
   \<and> fst (send_get_block_bodies example_env proto_v1 [[1], [2], [3]] (Some 7) world_empty)
       = Inl (ValueError ''Cannot ask for more than 2 blocks in a single request'')
   \<and> transport (snd (send_get_block_bodies example_env proto_v1 [[1], [2], [3]] (Some 7)
                        world_empty)) = []
   \<and> int (length [[1], [2 :: 8 word]]) \<le> MAX_BODIES_FETCH example_env
   \<and> encode example_env GetBlockBodies (cmd_id_offset proto_v1) (snappy_support proto_v1)
        [(''request_id'', PInt (request_id_used example_env (Some 7) world_empty)),
         (''block_hashes'', PBytesList [[1], [2]])] = Inr ([16, 2], [])
   \<and> fst (send_get_block_bodies example_env proto_v1 [[1], [2]] (Some 7) world_empty) = Inr 7
   \<and> transport (snd (send_get_block_bodies example_env proto_v1 [[1], [2]] (Some 7)
                        world_empty)) = [([16, 2], [])]
   \<and> encode example_env GetBlockBodies (cmd_id_offset proto_v1) (snappy_support proto_v1)
        [(''request_id'', PInt (request_id_used example_env (Some (- 5)) world_empty)),
         (''block_hashes'', PBytesList [[1], [2]])]
       = Inl (OtherError ''cannot serialize a negative integer'')
   \<and> fst (send_get_block_bodies example_env proto_v1 [[1], [2]] (Some (- 5)) world_empty)
       = Inl (OtherError ''cannot serialize a negative integer'')
   \<and> transport (snd (send_get_block_bodies example_env proto_v1 [[1], [2]] (Some (- 5))
                        world_empty)) = []"
proof -
  have big: "int (length [[1], [2], [3 :: 8 word]]) > MAX_BODIES_FETCH example_env"
    by (simp add: example_env_def)
  have small: "int (length [[1], [2 :: 8 word]]) \<le> MAX_BODIES_FETCH example_env"
    by (simp add: example_env_def)
  have enc: "encode example_env GetBlockBodies (cmd_id_offset proto_v1) (snappy_support proto_v1)
        [(''request_id'', PInt (request_id_used example_env (Some 7) world_empty)),
         (''block_hashes'', PBytesList [[1], [2]])] = Inr ([16, 2], [])"
    by (simp add: example_env_def example_encode_def proto_v1_def request_id_used_def
          dict_get_def)
  have refuse: "encode example_env GetBlockBodies (cmd_id_offset proto_v1)
        (snappy_support proto_v1)
        [(''request_id'', PInt (request_id_used example_env (Some (- 5)) world_empty)),
         (''block_hashes'', PBytesList [[1], [2]])]
       = Inl (OtherError ''cannot serialize a negative integer'')"
    by (simp add: example_env_def example_encode_def proto_v1_def request_id_used_def
          dict_get_def)
  have msg: "str_int (MAX_BODIES_FETCH example_env) = ''2''"
    by code_simp
  from send_get_block_bodies_limit
         [where block_hashes = "[[1], [2], [3]]" and env = example_env and self = proto_v1
            and request_id = "Some 7" and w = world_empty] big
  have a: "fst (send_get_block_bodies example_env proto_v1 [[1], [2], [3]] (Some 7) world_empty)
             = Inl (ValueError ''Cannot ask for more than 2 blocks in a single request'')
           \<and> transport (snd (send_get_block_bodies example_env proto_v1 [[1], [2], [3]] (Some 7)
                        world_empty)) = []"
    by (simp add: msg world_empty_def)
  from send_get_block_bodies_limit
         [where block_hashes = "[[1], [2]]" and env = example_env and self = proto_v1
            and request_id = "Some 7" and w = world_empty and frame = "([16, 2], [])"]
       small enc
  have b: "fst (send_get_block_bodies example_env proto_v1 [[1], [2]] (Some 7) world_empty) = Inr 7
   \<and> transport (snd (send_get_block_bodies example_env proto_v1 [[1], [2]] (Some 7)
                        world_empty)) = [([16, 2], [])]"
    by (simp add: request_id_used_def world_empty_def)
  from send_get_block_bodies_limit
         [where block_hashes = "[[1], [2]]" and env = example_env and self = proto_v1
            and request_id = "Some (- 5)" and w = world_empty
            and e = "OtherError ''cannot serialize a negative integer''"]
       small refuse
  have c: "fst (send_get_block_bodies example_env proto_v1 [[1], [2]] (Some (- 5)) world_empty)
       = Inl (OtherError ''cannot serialize a negative integer'')
   \<and> transport (snd (send_get_block_bodies example_env proto_v1 [[1], [2]] (Some (- 5))
                        world_empty)) = []"
    by (simp add: world_empty_def)
  from big small enc refuse a b c show ?thesis by blast
qed

text \<open>
  The claim as stated fails on a list within the limit: one hash with the request id
  \<open>-1\<close>, which the encoder refuses. The call raises and the world is as it was.
\<close>

theorem send_get_block_bodies_limit_counterexample:
  "int (length [[1 :: 8 word]]) \<le> MAX_BODIES_FETCH example_env
   \<and> send_get_block_bodies example_env proto_v1 [[1]] (Some (- 1)) world_empty
       = (Inl (OtherError ''cannot serialize a negative integer''), world_empty)
   \<and> transport (snd (send_get_block_bodies example_env proto_v1 [[1]] (Some (- 1))
                        world_empty)) = []"
  by (simp add: send_get_block_bodies_def LESProtocol_send_get_block_bodies_def
        example_env_def example_encode_def proto_v1_def world_empty_def dict_get_def)

subsection \<open>The handshake\<close>

lemma send_handshake_mismatch:
  assumes "version handshake_params \<noteq> version_of (cls self)"
  shows "send_handshake env self handshake_params w
           = (Inl (ValidationError (version_mismatch_message (version handshake_params)
                                      (version_of (cls self)))), w)"
  using assms
  by (cases "cls self")
     (simp_all add: send_handshake_def LESProtocol_send_handshake_def
        LESProtocolV2_send_handshake_def)

lemma send_handshake_match:
  assumes "version handshake_params = version_of (cls self)"
    and "encode env (handshake_cmd_of (cls self)) (cmd_id_offset self) (snappy_support self)
           (as_payload_dict handshake_params) = Inr frame"
  shows "send_handshake env self handshake_params w
           = (Inr (), w\<lparr>transport := transport w @ [frame],
                         logger := logger w @ [(''Sending LES/Status msg: %s'',
                                                 as_payload_dict handshake_params)]\<rparr>)"
  using assms
  by (cases "cls self")
     (simp_all add: send_handshake_def LESProtocol_send_handshake_def
        LESProtocolV2_send_handshake_def transport_send_def logger_debug_def)

lemma send_handshake_encoder_raises:
  assumes "version handshake_params = version_of (cls self)"
    and "encode env (handshake_cmd_of (cls self)) (cmd_id_offset self) (snappy_support self)
           (as_payload_dict handshake_params) = Inl e"
  shows "send_handshake env self handshake_params w
           = (Inl e, case cls self of
                       LESProtocol \<Rightarrow> w
                     | LESProtocolV2 \<Rightarrow>
                         w\<lparr>logger := logger w @ [handshake_log_record handshake_params]\<rparr>)"
  using assms
  by (cases "cls self")
     (simp_all add: send_handshake_def LESProtocol_send_handshake_def
        LESProtocolV2_send_handshake_def logger_debug_def handshake_log_record_def)

text \<open>What the two stand-in encoders return for the example handshakes.\<close>

lemma strict_encode_bare:
  "encode strict_env Status (cmd_id_offset proto_v1) (snappy_support proto_v1)
     (as_payload_dict params_bare) = Inr ([16, 6], [])"
  by (simp add: strict_env_def strict_encode_def example_encode_def proto_v1_def dict_get_def
        dict_keys_def known_status_keys_def as_payload_dict_items_eq as_payload_dict_items_def
        params_bare_def)

lemma strict_encode_bare_v2:
  "encode strict_env StatusV2 (cmd_id_offset proto_v2) (snappy_support proto_v2)
     (as_payload_dict params_bare_v2) = Inr ([16, 6], [])"
  by (simp add: strict_env_def strict_encode_def example_encode_def proto_v2_def dict_get_def
        dict_keys_def known_status_keys_def as_payload_dict_items_eq as_payload_dict_items_def
        params_bare_def params_bare_v2_def)

lemma strict_encode_serving:
  "encode strict_env StatusV2 (cmd_id_offset proto_v2) (snappy_support proto_v2)
     (as_payload_dict params_serving) = Inl (KeyError ''serveRecentChain'')"
  by (simp add: strict_env_def strict_encode_def proto_v2_def dict_keys_def
        known_status_keys_def as_payload_dict_items_eq as_payload_dict_items_def
        params_serving_def)

text \<open>
  Claim C5, as the code has it. When the version of the handshake parameters differs
  from the version of the driver's class, \<^verbatim>\<open>send_handshake\<close> raises the
  \<^verbatim>\<open>ValidationError\<close> with the mismatch message and leaves the world as it was, whatever
  the encoder is: nothing has been encoded, sent or logged. When the versions agree, the
  payload is handed to the encoder under the handshake command of the class, \<^verbatim>\<open>Status\<close>
  for version 1 and \<^verbatim>\<open>StatusV2\<close> for version 2: if the encoder returns a frame, the call
  succeeds and the transport has received that frame; if the encoder raises, the call
  raises the same exception and the transport has received nothing.
\<close>

theorem send_handshake_version_check:
  "(version handshake_params \<noteq> version_of (cls self) \<longrightarrow>
      send_handshake env self handshake_params w
        = (Inl (ValidationError (version_mismatch_message (version handshake_params)
                                   (version_of (cls self)))), w))
   \<and> (version handshake_params = version_of (cls self) \<longrightarrow>
        encode env (handshake_cmd_of (cls self)) (cmd_id_offset self) (snappy_support self)
          (as_payload_dict handshake_params) = Inr frame \<longrightarrow>
        fst (send_handshake env self handshake_params w) = Inr ()
        \<and> transport (snd (send_handshake env self handshake_params w)) = transport w @ [frame])
   \<and> (version handshake_params = version_of (cls self) \<longrightarrow>
        encode env (handshake_cmd_of (cls self)) (cmd_id_offset self) (snappy_support self)
          (as_payload_dict handshake_params) = Inl e \<longrightarrow>
        fst (send_handshake env self handshake_params w) = Inl e
        \<and> transport (snd (send_handshake env self handshake_params w)) = transport w)
   \<and> handshake_cmd_of LESProtocol = Status \<and> version_of LESProtocol = 1
   \<and> handshake_cmd_of LESProtocolV2 = StatusV2 \<and> version_of LESProtocolV2 = 2"
  by (cases "cls self")
     (simp_all add: send_handshake_mismatch send_handshake_match send_handshake_encoder_raises)

text \<open>
  Under the encoder with the fixed table of keys: version-2 parameters on a version-1
  driver are refused by the version check; the bare parameters are sent by a driver of
  their version; the parameters of the serving node, which carry the two recent-depth
  keys, match the version-2 driver and are refused by the encoder.
\<close>

theorem send_handshake_version_check_witness:
  "version params_serving \<noteq> version_of (cls proto_v1)
   \<and> send_handshake strict_env proto_v1 params_serving world_empty
       = (Inl (ValidationError ''LES protocol version mismatch: params:2 != proto:1''),
          world_empty)
   \<and> version params_bare = version_of (cls proto_v1)
   \<and> encode strict_env Status (cmd_id_offset proto_v1) (snappy_support proto_v1)
        (as_payload_dict params_bare) = Inr ([16, 6], [])
   \<and> fst (send_handshake strict_env proto_v1 params_bare world_empty) = Inr ()
   \<and> transport (snd (send_handshake strict_env proto_v1 params_bare world_empty))
       = [([16, 6], [])]
   \<and> version params_bare_v2 = version_of (cls proto_v2)
   \<and> encode strict_env StatusV2 (cmd_id_offset proto_v2) (snappy_support proto_v2)
        (as_payload_dict params_bare_v2) = Inr ([16, 6], [])
   \<and> fst (send_handshake strict_env proto_v2 params_bare_v2 world_empty) = Inr ()
   \<and> transport (snd (send_handshake strict_env proto_v2 params_bare_v2 world_empty))
       = [([16, 6], [])]
   \<and> version params_serving = version_of (cls proto_v2)
   \<and> encode strict_env StatusV2 (cmd_id_offset proto_v2) (snappy_support proto_v2)
        (as_payload_dict params_serving) = Inl (KeyError ''serveRecentChain'')
   \<and> fst (send_handshake strict_env proto_v2 params_serving world_empty)
       = Inl (KeyError ''serveRecentChain'')
   \<and> transport (snd (send_handshake strict_env proto_v2 params_serving world_empty)) = []"
proof -
  have cmd1: "handshake_cmd_of (cls proto_v1) = Status" by (simp add: proto_v1_def)
  have cmd2: "handshake_cmd_of (cls proto_v2) = StatusV2" by (simp add: proto_v2_def)
  have differ: "version params_serving \<noteq> version_of (cls proto_v1)"
    by (simp add: params_serving_def proto_v1_def)
  have msg: "version_mismatch_message (version params_serving) (version_of (cls proto_v1))
               = ''LES protocol version mismatch: params:2 != proto:1''"
    by code_simp
  have same1: "version params_bare = version_of (cls proto_v1)"
    by (simp add: params_bare_def proto_v1_def)
  have same2: "version params_bare_v2 = version_of (cls proto_v2)"
    by (simp add: params_bare_v2_def proto_v2_def)
  have same3: "version params_serving = version_of (cls proto_v2)"
    by (simp add: params_serving_def proto_v2_def)
  from send_handshake_version_check
         [where handshake_params = params_serving and self = proto_v1 and env = strict_env
            and w = world_empty] differ
  have a: "send_handshake strict_env proto_v1 params_serving world_empty
             = (Inl (ValidationError ''LES protocol version mismatch: params:2 != proto:1''),
                world_empty)"
    by (simp add: msg)
  from send_handshake_version_check
         [where handshake_params = params_bare and self = proto_v1 and env = strict_env
            and w = world_empty and frame = "([16, 6], [])"] same1 strict_encode_bare
  have b: "fst (send_handshake strict_env proto_v1 params_bare world_empty) = Inr ()
           \<and> transport (snd (send_handshake strict_env proto_v1 params_bare world_empty))
               = [([16, 6], [])]"
    by (simp add: world_empty_def cmd1)
  from send_handshake_version_check
         [where handshake_params = params_bare_v2 and self = proto_v2 and env = strict_env
            and w = world_empty and frame = "([16, 6], [])"] same2 strict_encode_bare_v2
  have c: "fst (send_handshake strict_env proto_v2 params_bare_v2 world_empty) = Inr ()
           \<and> transport (snd (send_handshake strict_env proto_v2 params_bare_v2 world_empty))
               = [([16, 6], [])]"
    by (simp add: world_empty_def cmd2)
  from send_handshake_version_check
         [where handshake_params = params_serving and self = proto_v2 and env = strict_env
            and w = world_empty and e = "KeyError ''serveRecentChain''"]
       same3 strict_encode_serving
  have d: "fst (send_handshake strict_env proto_v2 params_serving world_empty)
             = Inl (KeyError ''serveRecentChain'')
           \<and> transport (snd (send_handshake strict_env proto_v2 params_serving world_empty))
               = []"
    by (simp add: world_empty_def cmd2)
  from differ a same1 strict_encode_bare b same2 strict_encode_bare_v2 c same3
    strict_encode_serving d
  show ?thesis by blast
qed

text \<open>
  The claim as stated fails on \<open>params_serving\<close> and a version-2 driver: the versions
  match, and yet the call raises and nothing is sent.
\<close>

theorem send_handshake_version_check_counterexample:
  "version params_serving = version_of (cls proto_v2)
   \<and> fst (send_handshake strict_env proto_v2 params_serving world_empty)
       = Inl (KeyError ''serveRecentChain'')
   \<and> transport (snd (send_handshake strict_env proto_v2 params_serving world_empty)) = []"
proof -
  have same: "version params_serving = version_of (cls proto_v2)"
    by (simp add: params_serving_def proto_v2_def)
  have cmd: "handshake_cmd_of (cls proto_v2) = StatusV2" by (simp add: proto_v2_def)
  have cls: "cls proto_v2 = LESProtocolV2" by (simp add: proto_v2_def)
  from send_handshake_encoder_raises [OF same, of strict_env "KeyError ''serveRecentChain''"
         world_empty] strict_encode_serving
  have "send_handshake strict_env proto_v2 params_serving world_empty
          = (Inl (KeyError ''serveRecentChain''),
             world_empty\<lparr>logger := logger world_empty @ [handshake_log_record params_serving]\<rparr>)"
    by (simp add: cmd cls)
  with same show ?thesis by (simp add: world_empty_def)
qed

subsection \<open>What each request method does\<close>

lemmas request_unfold =
  gen_request_id_def ids_drawn_after_def request_id_used_def transport_send_def

lemma send_get_block_headers_inherited:
  "send_get_block_headers env self = LESProtocol_send_get_block_headers env self"
  by (simp add: send_get_block_headers_def split: les_class.split)

lemma send_block_headers_inherited:
  "send_block_headers env self = LESProtocol_send_block_headers env self"
  by (simp add: send_block_headers_def split: les_class.split)

lemma send_get_receipts_inherited:
  "send_get_receipts env self = LESProtocol_send_get_receipts env self"
  by (simp add: send_get_receipts_def split: les_class.split)

lemma send_get_contract_code_inherited:
  "send_get_contract_code env self = LESProtocol_send_get_contract_code env self"
  by (simp add: send_get_contract_code_def split: les_class.split)

lemma send_get_block_bodies_result:
  assumes "send_get_block_bodies env self block_hashes request_id w = (Inr r, w')"
  shows "sent_with_id env self GetBlockBodies
           [(''request_id'', PInt r), (''block_hashes'', PBytesList block_hashes)]
           request_id w r w'"
  using assms
  by (cases request_id)
     (auto simp: send_get_block_bodies_inherited LESProtocol_send_get_block_bodies_def
        sent_with_id_def dict_get_def request_unfold split: if_splits sum.splits)

lemma send_get_block_headers_result:
  assumes "send_get_block_headers env self block_number_or_hash max_headers skip reverse
             request_id w = (Inr r, w')"
  shows "sent_with_id env self GetBlockHeaders
           [(''request_id'', PInt r),
            (''query'', PQuery (GetBlockHeadersQuery block_number_or_hash max_headers skip
                                  reverse))]
           request_id w r w'"
  using assms
  by (cases request_id)
     (auto simp: send_get_block_headers_inherited LESProtocol_send_get_block_headers_def
        sent_with_id_def dict_get_def request_unfold split: sum.splits)

lemma send_block_headers_result:
  assumes "send_block_headers env self headers buffer_value request_id w = (Inr r, w')"
  shows "sent_with_id env self BlockHeaders
           [(''request_id'', PInt r), (''headers'', PHeaders headers),
            (''buffer_value'', PInt buffer_value)]
           request_id w r w'"
  using assms
  by (cases request_id)
     (auto simp: send_block_headers_inherited LESProtocol_send_block_headers_def
        sent_with_id_def dict_get_def request_unfold split: sum.splits)

lemma send_get_receipts_result:
  assumes "send_get_receipts env self block_hash request_id w = (Inr r, w')"
  shows "sent_with_id env self GetReceipts
           [(''request_id'', PInt r), (''block_hashes'', PBytesList [block_hash])]
           request_id w r w'"
  using assms
  by (cases request_id)
     (auto simp: send_get_receipts_inherited LESProtocol_send_get_receipts_def
        sent_with_id_def dict_get_def request_unfold split: sum.splits)

lemma send_get_proof_result:
  assumes "send_get_proof env self block_hash account_key key from_level request_id w
             = (Inr r, w')"
  shows "sent_with_id env self (proof_cmd_of (cls self))
           [(''request_id'', PInt r),
            (''proof_requests'',
               PProofRequests [ProofRequest block_hash account_key key from_level])]
           request_id w r w'"
  using assms
  by (cases request_id; cases "cls self")
     (auto simp: send_get_proof_def LESProtocol_send_get_proof_def
        LESProtocolV2_send_get_proof_def sent_with_id_def dict_get_def request_unfold
        split: sum.splits)

lemma send_get_contract_code_result:
  assumes "send_get_contract_code env self block_hash key request_id w = (Inr r, w')"
  shows "sent_with_id env self GetContractCodes
           [(''request_id'', PInt r),
            (''code_requests'', PCodeRequests [ContractCodeRequest block_hash key])]
           request_id w r w'"
  using assms
  by (cases request_id)
     (auto simp: send_get_contract_code_inherited LESProtocol_send_get_contract_code_def
        sent_with_id_def dict_get_def request_unfold split: sum.splits)

text \<open>
  Claim C10. Whenever one of the six request methods of the driver, of either version,
  returns a request id \<open>r\<close>, the dictionary it encoded has \<open>r\<close> under \<^verbatim>\<open>request_id\<close>
  and the frame of that dictionary is what the transport received; \<open>r\<close> is the caller's
  id when the caller gave one, and then no id was generated, and it is the next generated
  id when the caller gave none.
\<close>

theorem request_methods_return_embedded_id:
  "(send_get_block_bodies env self block_hashes request_id w = (Inr r_a, w_a) \<longrightarrow>
      sent_with_id env self GetBlockBodies
        [(''request_id'', PInt r_a), (''block_hashes'', PBytesList block_hashes)]
        request_id w r_a w_a)
   \<and> (send_get_block_headers env self block_number_or_hash max_headers skip reverse
         request_id w = (Inr r_b, w_b) \<longrightarrow>
      sent_with_id env self GetBlockHeaders
        [(''request_id'', PInt r_b),
         (''query'', PQuery (GetBlockHeadersQuery block_number_or_hash max_headers skip
                               reverse))]
        request_id w r_b w_b)
   \<and> (send_block_headers env self headers buffer_value request_id w = (Inr r_c, w_c) \<longrightarrow>
      sent_with_id env self BlockHeaders
        [(''request_id'', PInt r_c), (''headers'', PHeaders headers),
         (''buffer_value'', PInt buffer_value)]
        request_id w r_c w_c)
   \<and> (send_get_receipts env self block_hash request_id w = (Inr r_d, w_d) \<longrightarrow>
      sent_with_id env self GetReceipts
        [(''request_id'', PInt r_d), (''block_hashes'', PBytesList [block_hash])]
        request_id w r_d w_d)
   \<and> (send_get_proof env self block_hash account_key key from_level request_id w
         = (Inr r_e, w_e) \<longrightarrow>
      sent_with_id env self (proof_cmd_of (cls self))
        [(''request_id'', PInt r_e),
         (''proof_requests'',
            PProofRequests [ProofRequest block_hash account_key key from_level])]
        request_id w r_e w_e)
   \<and> (send_get_contract_code env self block_hash key request_id w = (Inr r_f, w_f) \<longrightarrow>
      sent_with_id env self GetContractCodes
        [(''request_id'', PInt r_f),
         (''code_requests'', PCodeRequests [ContractCodeRequest block_hash key])]
        request_id w r_f w_f)"
  by (intro conjI impI)
     (erule send_get_block_bodies_result send_get_block_headers_result
        send_block_headers_result send_get_receipts_result send_get_proof_result
        send_get_contract_code_result)+


text \<open>
  The six methods on a version-2 driver, each called without a request id in the empty
  world: each returns the first generated id, 1000, and sends one frame.
\<close>

theorem request_methods_return_embedded_id_witness:
  "send_get_block_bodies example_env proto_v2 [[1]] None world_empty
     = (Inr 1000, world_one_frame 2)
   \<and> sent_with_id example_env proto_v2 GetBlockBodies
        [(''request_id'', PInt 1000), (''block_hashes'', PBytesList [[1]])]
        None world_empty 1000 (world_one_frame 2)
   \<and> send_get_block_headers example_env proto_v2 (BlockNumber 0) 10 0 False None world_empty
     = (Inr 1000, world_one_frame 2)
   \<and> sent_with_id example_env proto_v2 GetBlockHeaders
        [(''request_id'', PInt 1000),
         (''query'', PQuery (GetBlockHeadersQuery (BlockNumber 0) 10 0 False))]
        None world_empty 1000 (world_one_frame 2)
   \<and> send_block_headers example_env proto_v2 [()] 300 None world_empty
     = (Inr 1000, world_one_frame 3)
   \<and> sent_with_id example_env proto_v2 BlockHeaders
        [(''request_id'', PInt 1000), (''headers'', PHeaders [()]),
         (''buffer_value'', PInt 300)]
        None world_empty 1000 (world_one_frame 3)
   \<and> send_get_receipts example_env proto_v2 [1] None world_empty
     = (Inr 1000, world_one_frame 2)
   \<and> sent_with_id example_env proto_v2 GetReceipts
        [(''request_id'', PInt 1000), (''block_hashes'', PBytesList [[1]])]
        None world_empty 1000 (world_one_frame 2)
   \<and> send_get_proof example_env proto_v2 [1] [2] [3] 0 None world_empty
     = (Inr 1000, world_one_frame 2)
   \<and> sent_with_id example_env proto_v2 GetProofsV2
        [(''request_id'', PInt 1000),
         (''proof_requests'', PProofRequests [ProofRequest [1] [2] [3] 0])]
        None world_empty 1000 (world_one_frame 2)
   \<and> send_get_contract_code example_env proto_v2 [1] [2] None world_empty
     = (Inr 1000, world_one_frame 2)
   \<and> sent_with_id example_env proto_v2 GetContractCodes
        [(''request_id'', PInt 1000),
         (''code_requests'', PCodeRequests [ContractCodeRequest [1] [2]])]
        None world_empty 1000 (world_one_frame 2)"
proof -
  note ex = example_env_def example_encode_def proto_v2_def world_empty_def
    world_one_frame_def dict_get_def gen_request_id_def transport_send_def
  have h1: "send_get_block_bodies example_env proto_v2 [[1]] None world_empty
              = (Inr 1000, world_one_frame 2)"
    by (simp add: send_get_block_bodies_def LESProtocol_send_get_block_bodies_def ex)
  have h2: "send_get_block_headers example_env proto_v2 (BlockNumber 0) 10 0 False None
              world_empty = (Inr 1000, world_one_frame 2)"
    by (simp add: send_get_block_headers_def LESProtocol_send_get_block_headers_def ex)
  have h3: "send_block_headers example_env proto_v2 [()] 300 None world_empty
              = (Inr 1000, world_one_frame 3)"
    by (simp add: send_block_headers_def LESProtocol_send_block_headers_def ex)
  have h4: "send_get_receipts example_env proto_v2 [1] None world_empty
              = (Inr 1000, world_one_frame 2)"
    by (simp add: send_get_receipts_def LESProtocol_send_get_receipts_def ex)
  have h5: "send_get_proof example_env proto_v2 [1] [2] [3] 0 None world_empty
              = (Inr 1000, world_one_frame 2)"
    by (simp add: send_get_proof_def LESProtocolV2_send_get_proof_def ex)
  have h6: "send_get_contract_code example_env proto_v2 [1] [2] None world_empty
              = (Inr 1000, world_one_frame 2)"
    by (simp add: send_get_contract_code_def LESProtocol_send_get_contract_code_def ex)
  have cmd: "proof_cmd_of (cls proto_v2) = GetProofsV2"
    by (simp add: proto_v2_def)
  from request_methods_return_embedded_id
         [where env = example_env and self = proto_v2 and request_id = None
            and w = world_empty and block_hashes = "[[1]]" and r_a = 1000
            and w_a = "world_one_frame 2" and block_number_or_hash = "BlockNumber 0"
            and max_headers = 10 and skip = 0 and reverse = False and r_b = 1000
            and w_b = "world_one_frame 2" and headers = "[()]" and buffer_value = 300
            and r_c = 1000 and w_c = "world_one_frame 3" and block_hash = "[1]" and r_d = 1000
            and w_d = "world_one_frame 2" and account_key = "[2]" and key = "[3]"
            and from_level = 0 and r_e = 1000 and w_e = "world_one_frame 2"]
       h1 h2 h3 h4 h5 cmd
  have first5: "sent_with_id example_env proto_v2 GetBlockBodies
        [(''request_id'', PInt 1000), (''block_hashes'', PBytesList [[1]])]
        None world_empty 1000 (world_one_frame 2)
   \<and> sent_with_id example_env proto_v2 GetBlockHeaders
        [(''request_id'', PInt 1000),
         (''query'', PQuery (GetBlockHeadersQuery (BlockNumber 0) 10 0 False))]
        None world_empty 1000 (world_one_frame 2)
   \<and> sent_with_id example_env proto_v2 BlockHeaders
        [(''request_id'', PInt 1000), (''headers'', PHeaders [()]),
         (''buffer_value'', PInt 300)]
        None world_empty 1000 (world_one_frame 3)
   \<and> sent_with_id example_env proto_v2 GetReceipts
        [(''request_id'', PInt 1000), (''block_hashes'', PBytesList [[1]])]
        None world_empty 1000 (world_one_frame 2)
   \<and> sent_with_id example_env proto_v2 GetProofsV2
        [(''request_id'', PInt 1000),
         (''proof_requests'', PProofRequests [ProofRequest [1] [2] [3] 0])]
        None world_empty 1000 (world_one_frame 2)"
    by simp
  from request_methods_return_embedded_id
         [where env = example_env and self = proto_v2 and request_id = None
            and w = world_empty and block_hash = "[1]" and key = "[2]" and r_f = 1000
            and w_f = "world_one_frame 2"] h6
  have sixth: "sent_with_id example_env proto_v2 GetContractCodes
        [(''request_id'', PInt 1000),
         (''code_requests'', PCodeRequests [ContractCodeRequest [1] [2]])]
        None world_empty 1000 (world_one_frame 2)"
    by blast
  from h1 h2 h3 h4 h5 h6 first5 sixth show ?thesis by blast
qed

subsection \<open>Version 2 against version 1\<close>

text \<open>
  The two methods that version 2 defines itself, compared with those of version 1 under
  an encoder that puts the version-2 command in place of the version-1 command.
  For the handshake the comparison is with the version-1 method body run on the same
  version-2 instance, and it covers the value returned and the frames sent; the two
  bodies log and send in opposite orders, so the log differs when the encoder raises.
\<close>

lemma send_get_proof_v2_cmd:
  "send_get_proof env (self\<lparr>cls := LESProtocolV2\<rparr>) block_hash account_key key from_level
     request_id w
   = send_get_proof (with_v2_cmds env) (self\<lparr>cls := LESProtocol\<rparr>) block_hash account_key key
       from_level request_id w"
  by (cases request_id)
     (simp_all add: send_get_proof_def LESProtocol_send_get_proof_def
        LESProtocolV2_send_get_proof_def with_v2_cmds_def v2_cmd_def gen_request_id_def)

lemma send_handshake_v2_cmd:
  "fst (send_handshake env (self\<lparr>cls := LESProtocolV2\<rparr>) handshake_params w)
     = fst (LESProtocol_send_handshake (with_v2_cmds env) (self\<lparr>cls := LESProtocolV2\<rparr>)
              handshake_params w)
   \<and> transport (snd (send_handshake env (self\<lparr>cls := LESProtocolV2\<rparr>) handshake_params w))
     = transport (snd (LESProtocol_send_handshake (with_v2_cmds env)
                         (self\<lparr>cls := LESProtocolV2\<rparr>) handshake_params w))"
  by (simp add: send_handshake_def LESProtocol_send_handshake_def
        LESProtocolV2_send_handshake_def with_v2_cmds_def v2_cmd_def transport_send_def
        logger_debug_def Let_def split: sum.split)

lemma send_handshake_v2_same_on_success:
  assumes "encode env StatusV2 (cmd_id_offset self) (snappy_support self)
             (as_payload_dict handshake_params) = Inr frame"
  shows "send_handshake env (self\<lparr>cls := LESProtocolV2\<rparr>) handshake_params w
           = LESProtocol_send_handshake (with_v2_cmds env) (self\<lparr>cls := LESProtocolV2\<rparr>)
               handshake_params w"
  using assms
  by (simp add: send_handshake_def LESProtocol_send_handshake_def
        LESProtocolV2_send_handshake_def with_v2_cmds_def v2_cmd_def transport_send_def
        logger_debug_def Let_def)

lemma send_handshake_v2_log_on_raise:
  assumes "version handshake_params = 2"
    and "encode env StatusV2 (cmd_id_offset self) (snappy_support self)
           (as_payload_dict handshake_params) = Inl e"
  shows "send_handshake env (self\<lparr>cls := LESProtocolV2\<rparr>) handshake_params w
           = (Inl e, w\<lparr>logger := logger w @ [handshake_log_record handshake_params]\<rparr>)"
    and "LESProtocol_send_handshake (with_v2_cmds env) (self\<lparr>cls := LESProtocolV2\<rparr>)
           handshake_params w = (Inl e, w)"
  using assms
  by (simp_all add: send_handshake_def LESProtocol_send_handshake_def
        LESProtocolV2_send_handshake_def with_v2_cmds_def v2_cmd_def logger_debug_def
        handshake_log_record_def Let_def)

text \<open>
  Claim C6, as the code has it. With the same arguments in the same world, a version-2
  driver and a version-1 driver with the same instance state do the same in
  get-block-bodies, get-block-headers, block-headers, get-receipts and
  get-contract-code. The version-2 get-proof is the version-1 get-proof with
  \<^verbatim>\<open>GetProofsV2\<close> in place of \<^verbatim>\<open>GetProofs\<close>. The command registry of version 2 is that
  of version 1 with \<^verbatim>\<open>StatusV2\<close> and \<^verbatim>\<open>ProofsV2\<close> at the places of \<^verbatim>\<open>Status\<close> and
  \<^verbatim>\<open>Proofs\<close>, and the command-space length is 21 instead of 15. The version-2
  handshake differs from the version-1 handshake body in two things: it encodes with
  \<^verbatim>\<open>StatusV2\<close> in place of \<^verbatim>\<open>Status\<close>, and it logs the payload before encoding and
  not after sending. The value returned and the frames sent are always those of the
  version-1 body with the command replaced; the whole result is the same whenever the
  encoder returns a frame; and when the versions match and the encoder raises, version 2
  has logged the payload and the version-1 body has logged nothing.
\<close>

theorem version2_overrides:
  "send_get_block_bodies env (self\<lparr>cls := LESProtocolV2\<rparr>) block_hashes request_id w
     = send_get_block_bodies env (self\<lparr>cls := LESProtocol\<rparr>) block_hashes request_id w
   \<and> send_get_block_headers env (self\<lparr>cls := LESProtocolV2\<rparr>) block_number_or_hash
       max_headers skip reverse request_id w
     = send_get_block_headers env (self\<lparr>cls := LESProtocol\<rparr>) block_number_or_hash
         max_headers skip reverse request_id w
   \<and> send_block_headers env (self\<lparr>cls := LESProtocolV2\<rparr>) headers buffer_value request_id w
     = send_block_headers env (self\<lparr>cls := LESProtocol\<rparr>) headers buffer_value request_id w
   \<and> send_get_receipts env (self\<lparr>cls := LESProtocolV2\<rparr>) block_hash request_id w
     = send_get_receipts env (self\<lparr>cls := LESProtocol\<rparr>) block_hash request_id w
   \<and> send_get_contract_code env (self\<lparr>cls := LESProtocolV2\<rparr>) block_hash key request_id w
     = send_get_contract_code env (self\<lparr>cls := LESProtocol\<rparr>) block_hash key request_id w
   \<and> send_get_proof env (self\<lparr>cls := LESProtocolV2\<rparr>) block_hash account_key key from_level
       request_id w
     = send_get_proof (with_v2_cmds env) (self\<lparr>cls := LESProtocol\<rparr>) block_hash account_key
         key from_level request_id w
   \<and> fst (send_handshake env (self\<lparr>cls := LESProtocolV2\<rparr>) handshake_params w)
     = fst (LESProtocol_send_handshake (with_v2_cmds env) (self\<lparr>cls := LESProtocolV2\<rparr>)
              handshake_params w)
   \<and> transport (snd (send_handshake env (self\<lparr>cls := LESProtocolV2\<rparr>) handshake_params w))
     = transport (snd (LESProtocol_send_handshake (with_v2_cmds env)
                         (self\<lparr>cls := LESProtocolV2\<rparr>) handshake_params w))
   \<and> (encode env StatusV2 (cmd_id_offset self) (snappy_support self)
         (as_payload_dict handshake_params) = Inr frame \<longrightarrow>
       send_handshake env (self\<lparr>cls := LESProtocolV2\<rparr>) handshake_params w
         = LESProtocol_send_handshake (with_v2_cmds env) (self\<lparr>cls := LESProtocolV2\<rparr>)
             handshake_params w)
   \<and> (version handshake_params = 2 \<longrightarrow>
       encode env StatusV2 (cmd_id_offset self) (snappy_support self)
         (as_payload_dict handshake_params) = Inl e \<longrightarrow>
       logger (snd (send_handshake env (self\<lparr>cls := LESProtocolV2\<rparr>) handshake_params w))
         = logger w @ [handshake_log_record handshake_params]
       \<and> logger (snd (LESProtocol_send_handshake (with_v2_cmds env)
                        (self\<lparr>cls := LESProtocolV2\<rparr>) handshake_params w))
         = logger w)
   \<and> v2_cmd Status = StatusV2 \<and> v2_cmd GetProofs = GetProofsV2
   \<and> commands_of LESProtocolV2 = (commands_of LESProtocol)[0 := StatusV2, 6 := ProofsV2]
   \<and> cmd_length_of LESProtocol = 15 \<and> cmd_length_of LESProtocolV2 = 21"
proof -
  have inherited:
    "send_get_block_bodies env (self\<lparr>cls := LESProtocolV2\<rparr>) block_hashes request_id w
       = send_get_block_bodies env (self\<lparr>cls := LESProtocol\<rparr>) block_hashes request_id w"
    "send_get_block_headers env (self\<lparr>cls := LESProtocolV2\<rparr>) block_number_or_hash
         max_headers skip reverse request_id w
       = send_get_block_headers env (self\<lparr>cls := LESProtocol\<rparr>) block_number_or_hash
           max_headers skip reverse request_id w"
    "send_block_headers env (self\<lparr>cls := LESProtocolV2\<rparr>) headers buffer_value request_id w
       = send_block_headers env (self\<lparr>cls := LESProtocol\<rparr>) headers buffer_value request_id w"
    "send_get_receipts env (self\<lparr>cls := LESProtocolV2\<rparr>) block_hash request_id w
       = send_get_receipts env (self\<lparr>cls := LESProtocol\<rparr>) block_hash request_id w"
    "send_get_contract_code env (self\<lparr>cls := LESProtocolV2\<rparr>) block_hash key request_id w
       = send_get_contract_code env (self\<lparr>cls := LESProtocol\<rparr>) block_hash key request_id w"
    by (cases request_id,
        simp_all add: gen_request_id_def
          send_get_block_bodies_def LESProtocol_send_get_block_bodies_def
          send_get_block_headers_def LESProtocol_send_get_block_headers_def
          send_block_headers_def LESProtocol_send_block_headers_def
          send_get_receipts_def LESProtocol_send_get_receipts_def
          send_get_contract_code_def LESProtocol_send_get_contract_code_def)
  have registry:
    "v2_cmd Status = StatusV2" "v2_cmd GetProofs = GetProofsV2"
    "commands_of LESProtocolV2 = (commands_of LESProtocol)[0 := StatusV2, 6 := ProofsV2]"
    "cmd_length_of LESProtocol = 15" "cmd_length_of LESProtocolV2 = 21"
    by (simp_all add: v2_cmd_def)
  have on_raise:
    "version handshake_params = 2 \<longrightarrow>
       encode env StatusV2 (cmd_id_offset self) (snappy_support self)
         (as_payload_dict handshake_params) = Inl e \<longrightarrow>
       logger (snd (send_handshake env (self\<lparr>cls := LESProtocolV2\<rparr>) handshake_params w))
         = logger w @ [handshake_log_record handshake_params]
       \<and> logger (snd (LESProtocol_send_handshake (with_v2_cmds env)
                        (self\<lparr>cls := LESProtocolV2\<rparr>) handshake_params w))
         = logger w"
    by (simp add: send_handshake_v2_log_on_raise)
  have on_success:
    "encode env StatusV2 (cmd_id_offset self) (snappy_support self)
         (as_payload_dict handshake_params) = Inr frame \<longrightarrow>
       send_handshake env (self\<lparr>cls := LESProtocolV2\<rparr>) handshake_params w
         = LESProtocol_send_handshake (with_v2_cmds env) (self\<lparr>cls := LESProtocolV2\<rparr>)
             handshake_params w"
    by (simp add: send_handshake_v2_same_on_success)
  show ?thesis
    by (intro conjI) (rule inherited send_get_proof_v2_cmd registry on_raise on_success
          send_handshake_v2_cmd [THEN conjunct1] send_handshake_v2_cmd [THEN conjunct2])+
qed

text \<open>
  On a version-2 driver under the encoder with the fixed table of keys: the bare
  handshake is encoded, and the two bodies leave the same world; the handshake of the
  serving node is refused by the encoder, and only version 2 has logged it.
\<close>

theorem version2_overrides_witness:
  "encode strict_env StatusV2 (cmd_id_offset proto_v2) (snappy_support proto_v2)
     (as_payload_dict params_bare_v2) = Inr ([16, 6], [])
   \<and> send_handshake strict_env (proto_v2\<lparr>cls := LESProtocolV2\<rparr>) params_bare_v2 world_empty
       = LESProtocol_send_handshake (with_v2_cmds strict_env) (proto_v2\<lparr>cls := LESProtocolV2\<rparr>)
           params_bare_v2 world_empty
   \<and> version params_serving = 2
   \<and> encode strict_env StatusV2 (cmd_id_offset proto_v2) (snappy_support proto_v2)
        (as_payload_dict params_serving) = Inl (KeyError ''serveRecentChain'')
   \<and> logger (snd (send_handshake strict_env (proto_v2\<lparr>cls := LESProtocolV2\<rparr>) params_serving
                     world_empty))
       = [handshake_log_record params_serving]
   \<and> logger (snd (LESProtocol_send_handshake (with_v2_cmds strict_env)
                     (proto_v2\<lparr>cls := LESProtocolV2\<rparr>) params_serving world_empty))
       = []"
proof -
  have v: "version params_serving = 2" by (simp add: params_serving_def)
  from version2_overrides
         [where env = strict_env and self = proto_v2 and handshake_params = params_bare_v2
            and w = world_empty and frame = "([16, 6], [])"] strict_encode_bare_v2
  have a: "send_handshake strict_env (proto_v2\<lparr>cls := LESProtocolV2\<rparr>) params_bare_v2
             world_empty
           = LESProtocol_send_handshake (with_v2_cmds strict_env)
               (proto_v2\<lparr>cls := LESProtocolV2\<rparr>) params_bare_v2 world_empty"
    by blast
  from version2_overrides
         [where env = strict_env and self = proto_v2 and handshake_params = params_serving
            and w = world_empty and e = "KeyError ''serveRecentChain''"]
       v strict_encode_serving
  have b: "logger (snd (send_handshake strict_env (proto_v2\<lparr>cls := LESProtocolV2\<rparr>)
                          params_serving world_empty))
             = logger world_empty @ [handshake_log_record params_serving]
           \<and> logger (snd (LESProtocol_send_handshake (with_v2_cmds strict_env)
                     (proto_v2\<lparr>cls := LESProtocolV2\<rparr>) params_serving world_empty))
             = logger world_empty"
    by blast
  have empty: "logger world_empty = []" by (simp add: world_empty_def)
  from strict_encode_bare_v2 a v strict_encode_serving b show ?thesis
    unfolding empty by simp
qed

text \<open>
  The claim as stated, with the handshake command as the only difference between the
  two handshakes, fails on \<open>params_serving\<close>: with the command replaced, the version-1
  body and the version-2 handshake raise the same exception and leave different worlds.
\<close>

theorem version2_overrides_counterexample:
  "send_handshake strict_env proto_v2 params_serving world_empty
     = (Inl (KeyError ''serveRecentChain''),
        world_empty\<lparr>logger := [handshake_log_record params_serving]\<rparr>)
   \<and> LESProtocol_send_handshake (with_v2_cmds strict_env) proto_v2 params_serving world_empty
     = (Inl (KeyError ''serveRecentChain''), world_empty)
   \<and> send_handshake strict_env proto_v2 params_serving world_empty
     \<noteq> LESProtocol_send_handshake (with_v2_cmds strict_env) proto_v2 params_serving world_empty"
proof -
  have v: "version params_serving = 2" by (simp add: params_serving_def)
  have self: "proto_v2\<lparr>cls := LESProtocolV2\<rparr> = proto_v2" by (simp add: proto_v2_def)
  have empty: "logger world_empty = []" by (simp add: world_empty_def)
  note raise = send_handshake_v2_log_on_raise
                 [OF v, of strict_env proto_v2 "KeyError ''serveRecentChain''" world_empty,
                  OF strict_encode_serving, unfolded self empty append_Nil]
  have differ: "world_empty\<lparr>logger := [handshake_log_record params_serving]\<rparr> \<noteq> world_empty"
    by (simp add: world_empty_def world.equality)
  from raise differ show ?thesis by simp
qed

end
